theory Spec2Isabelle
  imports Main "HOL-Library.Word" "HOL-Library.Sublist"
begin

section \<open>Resource gatherer (package kubernetes)\<close>

text \<open>
  The cluster API client is an external collaborator. Its list calls are modelled as
  functions of the namespace and the list options, returning either the text of the
  error (\<open>err.Error()\<close>, \<open>Inl\<close>) or the items of the list. The state of the cluster is
  fixed for the duration of one gather call. Items of kinds other than secrets are never
  inspected by the code and are kept opaque.
\<close>

type_synonym int64 = "64 word"
type_synonym float64 = "64 word"
type_synonym k8s_object = string

record secret =
  SecretName :: string
  Data :: "string \<rightharpoonup> string"
  StringData :: "string \<rightharpoonup> string"

record list_options =
  LabelSelector :: string

record pod_log_options =
  Container :: string
  TailLines :: "int64 option"

text \<open>
  An opened log stream, as its successive \<open>Read\<close> calls deliver it: the bytes of the
  reads that returned no error, then the bytes and the error of the read that returned
  one (\<open>io.EOF\<close> or a failure of the transport). A reader that never returns an error,
  on which the read loop would not end, is not represented.
\<close>

datatype read_error = EOF | ReadFailed string

type_synonym log_stream = "string list \<times> (string \<times> read_error)"

record clientset =
  listPods :: "string \<Rightarrow> list_options \<Rightarrow> string + k8s_object list"
  listDeployments :: "string \<Rightarrow> list_options \<Rightarrow> string + k8s_object list"
  listServices :: "string \<Rightarrow> list_options \<Rightarrow> string + k8s_object list"
  listConfigMaps :: "string \<Rightarrow> list_options \<Rightarrow> string + k8s_object list"
  listSecrets :: "string \<Rightarrow> list_options \<Rightarrow> string + secret list"
  listEvents :: "string \<Rightarrow> list_options \<Rightarrow> string + k8s_object list"
  listReplicaSets :: "string \<Rightarrow> list_options \<Rightarrow> string + k8s_object list"
  streamLogs :: "string \<Rightarrow> string \<Rightarrow> pod_log_options \<Rightarrow> string + log_stream"

text \<open>The receiver of \<open>GatherResources\<close>; \<open>now\<close> is the formatted reading of the clock.\<close>

record Service =
  clientset :: clientset
  contextName :: string
  now :: string

datatype resource =
    ErrorText string
  | PodList "k8s_object list"
  | DeploymentList "k8s_object list"
  | ServiceList "k8s_object list"
  | ConfigMapList "k8s_object list"
  | SecretList "secret list"
  | EventList "k8s_object list"
  | ReplicaSetList "k8s_object list"

record GatherMetadata =
  Timestamp :: string
  ClusterContext :: string
  Namespace :: string

record GatherResourcesResponse =
  Resources :: "string \<rightharpoonup> resource"
  Metadata :: GatherMetadata

text \<open>The loop over \<open>secrets.Items\<close> that clears both payload maps of every item.\<close>

definition redact :: "secret \<Rightarrow> secret" where
  "redact s = s\<lparr>Data := Map.empty, StringData := Map.empty\<rparr>"

text \<open>One iteration of the loop over \<open>resourceTypes\<close>: the \<open>switch\<close> on the kind.\<close>

definition gatherOne ::
  "clientset \<Rightarrow> string \<Rightarrow> list_options \<Rightarrow> string \<Rightarrow> (string \<rightharpoonup> resource) \<Rightarrow> (string \<rightharpoonup> resource)"
where
  "gatherOne cs namespace listOptions resourceType resources =
    (if resourceType = ''pods'' then
       (case listPods cs namespace listOptions of
          Inl err \<Rightarrow> resources(''pods_error'' \<mapsto> ErrorText err)
        | Inr pods \<Rightarrow> resources(''pods'' \<mapsto> PodList pods))
     else if resourceType = ''deployments'' then
       (case listDeployments cs namespace listOptions of
          Inl err \<Rightarrow> resources(''deployments_error'' \<mapsto> ErrorText err)
        | Inr deployments \<Rightarrow> resources(''deployments'' \<mapsto> DeploymentList deployments))
     else if resourceType = ''services'' then
       (case listServices cs namespace listOptions of
          Inl err \<Rightarrow> resources(''services_error'' \<mapsto> ErrorText err)
        | Inr services \<Rightarrow> resources(''services'' \<mapsto> ServiceList services))
     else if resourceType = ''configmaps'' then
       (case listConfigMaps cs namespace listOptions of
          Inl err \<Rightarrow> resources(''configmaps_error'' \<mapsto> ErrorText err)
        | Inr configMaps \<Rightarrow> resources(''configmaps'' \<mapsto> ConfigMapList configMaps))
     else if resourceType = ''secrets'' then
       (case listSecrets cs namespace listOptions of
          Inl err \<Rightarrow> resources(''secrets_error'' \<mapsto> ErrorText err)
        | Inr secrets \<Rightarrow> resources(''secrets'' \<mapsto> SecretList (map redact secrets)))
     else if resourceType = ''events'' then
       (case listEvents cs namespace listOptions of
          Inl err \<Rightarrow> resources(''events_error'' \<mapsto> ErrorText err)
        | Inr events \<Rightarrow> resources(''events'' \<mapsto> EventList events))
     else if resourceType = ''replicasets'' then
       (case listReplicaSets cs namespace listOptions of
          Inl err \<Rightarrow> resources(''replicasets_error'' \<mapsto> ErrorText err)
        | Inr replicaSets \<Rightarrow> resources(''replicasets'' \<mapsto> ReplicaSetList replicaSets))
     else
       resources(resourceType @ ''_error'' \<mapsto>
         ErrorText (''unsupported resource type: '' @ resourceType)))"

fun gatherLoop ::
  "clientset \<Rightarrow> string \<Rightarrow> list_options \<Rightarrow> string list \<Rightarrow> (string \<rightharpoonup> resource) \<Rightarrow> (string \<rightharpoonup> resource)"
where
  "gatherLoop cs namespace listOptions [] resources = resources"
| "gatherLoop cs namespace listOptions (resourceType # rest) resources =
     gatherLoop cs namespace listOptions rest
       (gatherOne cs namespace listOptions resourceType resources)"

definition defaultNamespace :: "string \<Rightarrow> string" where
  "defaultNamespace namespace = (if namespace = '''' then ''default'' else namespace)"

definition makeListOptions :: "string \<Rightarrow> list_options" where
  "makeListOptions labelSelector =
     (if labelSelector \<noteq> '''' then \<lparr>LabelSelector = labelSelector\<rparr>
      else \<lparr>LabelSelector = ''''\<rparr>)"

text \<open>
  \<open>GatherResources\<close> returns the response together with the error value, which is
  \<open>nil\<close> (\<open>None\<close>) on every path.
\<close>

definition GatherResources ::
  "Service \<Rightarrow> string list \<Rightarrow> string \<Rightarrow> string \<Rightarrow> GatherResourcesResponse \<times> string option"
where
  "GatherResources s resourceTypes namespace labelSelector =
     (let namespace' = defaultNamespace namespace;
          listOptions = makeListOptions labelSelector;
          resources = gatherLoop (clientset s) namespace' listOptions resourceTypes Map.empty
      in (\<lparr>Resources = resources,
           Metadata = \<lparr>Timestamp = now s, ClusterContext = contextName s,
                        Namespace = namespace'\<rparr>\<rparr>, None))"

text \<open>
  For the statements below: the list query that the \<open>switch\<close> issues for a kind, with
  its outcome wrapped in the type of the result map, and \<open>None\<close> for a kind that has no
  case of its own; and the redaction applied on the way into the result.
\<close>

definition listKind ::
  "clientset \<Rightarrow> string \<Rightarrow> string \<Rightarrow> list_options \<Rightarrow> (string + resource) option"
where
  "listKind cs resourceType namespace listOptions =
    (if resourceType = ''pods'' then Some (map_sum id PodList (listPods cs namespace listOptions))
     else if resourceType = ''deployments'' then
       Some (map_sum id DeploymentList (listDeployments cs namespace listOptions))
     else if resourceType = ''services'' then
       Some (map_sum id ServiceList (listServices cs namespace listOptions))
     else if resourceType = ''configmaps'' then
       Some (map_sum id ConfigMapList (listConfigMaps cs namespace listOptions))
     else if resourceType = ''secrets'' then
       Some (map_sum id SecretList (listSecrets cs namespace listOptions))
     else if resourceType = ''events'' then
       Some (map_sum id EventList (listEvents cs namespace listOptions))
     else if resourceType = ''replicasets'' then
       Some (map_sum id ReplicaSetList (listReplicaSets cs namespace listOptions))
     else None)"

fun redactResource :: "resource \<Rightarrow> resource" where
  "redactResource (SecretList secrets) = SecretList (map redact secrets)"
| "redactResource r = r"

definition entryKey :: "clientset \<Rightarrow> string \<Rightarrow> list_options \<Rightarrow> string \<Rightarrow> string" where
  "entryKey cs namespace listOptions resourceType =
     (case listKind cs resourceType namespace listOptions of
        Some (Inr v) \<Rightarrow> resourceType
      | _ \<Rightarrow> resourceType @ ''_error'')"

definition entryValue :: "clientset \<Rightarrow> string \<Rightarrow> list_options \<Rightarrow> string \<Rightarrow> resource" where
  "entryValue cs namespace listOptions resourceType =
     (case listKind cs resourceType namespace listOptions of
        Some (Inr v) \<Rightarrow> redactResource v
      | Some (Inl err) \<Rightarrow> ErrorText err
      | None \<Rightarrow> ErrorText (''unsupported resource type: '' @ resourceType))"

fun redacted :: "resource \<Rightarrow> bool" where
  "redacted (SecretList secrets) =
     list_all (\<lambda>s. Data s = Map.empty \<and> StringData s = Map.empty) secrets"
| "redacted r = True"

text \<open>
  \<open>GetPodLogs\<close>. The tail limit is passed to the cluster only when \<open>lines > 0\<close>.
  A log stream, once opened, is given by the data of its reads that returned no error,
  followed by the read that returned one (\<open>io.EOF\<close> at the end of the log, or a
  failure of the connection); the loop leaves at that read, whatever the error is.
\<close>

definition podLogOptions :: "string \<Rightarrow> int64 \<Rightarrow> pod_log_options" where
  "podLogOptions containerName lines =
     \<lparr>Container = containerName,
      TailLines = (if 0 < sint lines then Some lines else None)\<rparr>"

fun readLoop :: "string list \<Rightarrow> string \<times> read_error \<Rightarrow> string \<Rightarrow> string" where
  "readLoop [] (buf, err) result = (if length buf > 0 then result @ buf else result)"
| "readLoop (buf # reads) final result =
     readLoop reads final (if length buf > 0 then result @ buf else result)"

definition GetPodLogs ::
  "Service \<Rightarrow> string \<Rightarrow> string \<Rightarrow> string \<Rightarrow> int64 \<Rightarrow> string \<times> string option"
where
  "GetPodLogs s namespace podName containerName lines =
     (case streamLogs (clientset s) namespace podName (podLogOptions containerName lines) of
        Inl err \<Rightarrow> ('''', Some (''failed to get pod logs: '' @ err))
      | Inr (reads, final) \<Rightarrow> (readLoop reads final [], None))"

section \<open>Tool catalog and tool executor (package mcp)\<close>

text \<open>
  Fields of Go structs keep their names; where two structs share a field name, the
  descriptor's fields carry the prefix \<open>tool\<close> or \<open>schema\<close>. A value of type
  \<open>interface{}\<close> in an argument map is one of the dynamic types the helpers test
  for, or something else. A \<open>float64\<close> is its 64 bits; its conversion to \<open>int64\<close> is
  the machine's and is a parameter, as are the functions of \<open>encoding/json\<close>.
\<close>

record param_schema =
  paramType :: string
  paramDescription :: string

record ToolSchema =
  schemaType :: string
  schemaProperties :: "(string \<times> param_schema) list"
  schemaRequired :: "string list"

record Tool =
  toolName :: string
  toolDescription :: string
  toolInputSchema :: ToolSchema

record ToolContent =
  Type :: string
  Text :: string

record ToolResult =
  Content :: "ToolContent list"
  IsError :: bool

datatype arg_value =
    VString string
  | VFloat64 float64
  | VInt int64
  | VInt64 int64
  | VOther

record ToolRequest =
  Name :: string
  Arguments :: "string \<rightharpoonup> arg_value"

record ai_action =
  aiAction :: string
  aiTool :: string
  aiArguments :: "string \<rightharpoonup> arg_value"
  aiResponse :: string

record stdlib =
  jsonUnmarshal :: "string \<Rightarrow> ai_action \<Rightarrow> string option \<times> ai_action"
  jsonMarshalIndent :: "resource option \<Rightarrow> string"
  jsonMarshalTools :: "Tool list \<Rightarrow> string"
  float64ToInt64 :: "float64 \<Rightarrow> int64"

record MCPService =
  k8sService :: "Service option"
  tools :: "(string \<times> Tool) list"

definition stringParam :: "string \<Rightarrow> param_schema" where
  "stringParam d = \<lparr>paramType = ''string'', paramDescription = d\<rparr>"

definition registerTools :: "(string \<times> Tool) list" where
  "registerTools =
    [(''get_pod_health'',
      \<lparr>toolName = ''get_pod_health'',
       toolDescription = ''Get the health status of pods in a namespace'',
       toolInputSchema = \<lparr>schemaType = ''object'',
         schemaProperties =
           [(''namespace'', stringParam ''Kubernetes namespace to check (default: default)''),
            (''labelSelector'', stringParam ''Label selector to filter pods (optional)'')],
         schemaRequired = []\<rparr>\<rparr>),
     (''get_deployment_status'',
      \<lparr>toolName = ''get_deployment_status'',
       toolDescription = ''Get the status of deployments in a namespace'',
       toolInputSchema = \<lparr>schemaType = ''object'',
         schemaProperties =
           [(''namespace'', stringParam ''Kubernetes namespace to check (default: default)''),
            (''deploymentName'', stringParam ''Specific deployment name (optional)'')],
         schemaRequired = []\<rparr>\<rparr>),
     (''get_service_endpoints'',
      \<lparr>toolName = ''get_service_endpoints'',
       toolDescription = ''Get the endpoints and status of services in a namespace'',
       toolInputSchema = \<lparr>schemaType = ''object'',
         schemaProperties =
           [(''namespace'', stringParam ''Kubernetes namespace to check (default: default)''),
            (''serviceName'', stringParam ''Specific service name (optional)'')],
         schemaRequired = []\<rparr>\<rparr>),
     (''get_recent_events'',
      \<lparr>toolName = ''get_recent_events'',
       toolDescription = ''Get recent Kubernetes events in a namespace'',
       toolInputSchema = \<lparr>schemaType = ''object'',
         schemaProperties =
           [(''namespace'', stringParam ''Kubernetes namespace to check (default: default)''),
            (''resourceName'', stringParam ''Filter events for specific resource (optional)'')],
         schemaRequired = []\<rparr>\<rparr>),
     (''get_pod_logs'',
      \<lparr>toolName = ''get_pod_logs'',
       toolDescription = ''Get logs from a specific pod'',
       toolInputSchema = \<lparr>schemaType = ''object'',
         schemaProperties =
           [(''namespace'', stringParam ''Kubernetes namespace (default: default)''),
            (''podName'', stringParam ''Name of the pod to get logs from''),
            (''containerName'', stringParam ''Container name (optional)''),
            (''lines'', \<lparr>paramType = ''number'',
               paramDescription = ''Number of lines to retrieve (default: 100)''\<rparr>)],
         schemaRequired = [''podName'']\<rparr>\<rparr>)]"

definition NewMCPService :: "Service option \<Rightarrow> MCPService" where
  "NewMCPService k = \<lparr>k8sService = k, tools = registerTools\<rparr>"

definition ListTools :: "MCPService \<Rightarrow> Tool list" where
  "ListTools m = map snd (tools m)"

definition getStringParam :: "(string \<rightharpoonup> arg_value) \<Rightarrow> string \<Rightarrow> string \<Rightarrow> string" where
  "getStringParam args key defaultValue =
     (case args key of Some (VString str) \<Rightarrow> str | _ \<Rightarrow> defaultValue)"

definition getIntParam :: "stdlib \<Rightarrow> (string \<rightharpoonup> arg_value) \<Rightarrow> string \<Rightarrow> int64 \<Rightarrow> int64" where
  "getIntParam lib args key defaultValue =
     (case args key of
        Some (VFloat64 v) \<Rightarrow> float64ToInt64 lib v
      | Some (VInt v) \<Rightarrow> v
      | Some (VInt64 v) \<Rightarrow> v
      | _ \<Rightarrow> defaultValue)"

definition textResult :: "string \<Rightarrow> bool \<Rightarrow> ToolResult" where
  "textResult t e = \<lparr>Content = [\<lparr>Type = ''text'', Text = t\<rparr>], IsError = e\<rparr>"

definition serviceUnavailable :: "ToolResult \<times> string option" where
  "serviceUnavailable =
     (textResult ''Kubernetes service not available. Please ensure cluster connectivity.'' True,
      Some ''kubernetes service not available'')"

definition quoted :: "string \<Rightarrow> string" where
  "quoted s = [CHR 0x27] @ s @ [CHR 0x27]"

function digits :: "nat \<Rightarrow> string" where
  "digits n =
     (if n < 10 then [''0123456789'' ! n]
      else digits (n div 10) @ [''0123456789'' ! (n mod 10)])"
  by pat_completeness auto
termination
  by (relation "measure id") auto

definition formatInt64 :: "int64 \<Rightarrow> string" where
  "formatInt64 n = (if sint n < 0 then ''-'' @ digits (nat (- sint n)) else digits (nat (sint n)))"

definition getPodHealth ::
  "stdlib \<Rightarrow> MCPService \<Rightarrow> (string \<rightharpoonup> arg_value) \<Rightarrow> ToolResult \<times> string option"
where
  "getPodHealth lib m args =
    (let namespace = getStringParam args ''namespace'' ''default'';
         labelSelector = getStringParam args ''labelSelector'' ''''
     in case k8sService m of
          None \<Rightarrow> serviceUnavailable
        | Some k \<Rightarrow>
            (case GatherResources k [''pods''] namespace labelSelector of
               (resources, Some err) \<Rightarrow>
                 (textResult (''Error gathering pod information: '' @ err) True, Some err)
             | (resources, None) \<Rightarrow>
                 (textResult (''Pod health information for namespace '' @ quoted namespace
                    @ '':\<newline>\<newline>'' @ jsonMarshalIndent lib (Resources resources ''pods'')) False,
                  None)))"

definition getDeploymentStatus ::
  "stdlib \<Rightarrow> MCPService \<Rightarrow> (string \<rightharpoonup> arg_value) \<Rightarrow> ToolResult \<times> string option"
where
  "getDeploymentStatus lib m args =
    (let namespace = getStringParam args ''namespace'' ''default'';
         deploymentName = getStringParam args ''deploymentName'' ''''
     in case k8sService m of
          None \<Rightarrow> serviceUnavailable
        | Some k \<Rightarrow>
            (let labelSelector = (if deploymentName \<noteq> '''' then ''app='' @ deploymentName else '''')
             in case GatherResources k [''deployments''] namespace labelSelector of
               (resources, Some err) \<Rightarrow>
                 (textResult (''Error gathering deployment information: '' @ err) True, Some err)
             | (resources, None) \<Rightarrow>
                 (textResult (''Deployment status for namespace '' @ quoted namespace
                    @ '':\<newline>\<newline>'' @ jsonMarshalIndent lib (Resources resources ''deployments''))
                    False,
                  None)))"

definition getServiceEndpoints ::
  "stdlib \<Rightarrow> MCPService \<Rightarrow> (string \<rightharpoonup> arg_value) \<Rightarrow> ToolResult \<times> string option"
where
  "getServiceEndpoints lib m args =
    (let namespace = getStringParam args ''namespace'' ''default'';
         serviceName = getStringParam args ''serviceName'' ''''
     in case k8sService m of
          None \<Rightarrow> serviceUnavailable
        | Some k \<Rightarrow>
            (let labelSelector = (if serviceName \<noteq> '''' then ''app='' @ serviceName else '''')
             in case GatherResources k [''services''] namespace labelSelector of
               (resources, Some err) \<Rightarrow>
                 (textResult (''Error gathering service information: '' @ err) True, Some err)
             | (resources, None) \<Rightarrow>
                 (textResult (''Service endpoints for namespace '' @ quoted namespace
                    @ '':\<newline>\<newline>'' @ jsonMarshalIndent lib (Resources resources ''services''))
                    False,
                  None)))"

definition getRecentEvents ::
  "stdlib \<Rightarrow> MCPService \<Rightarrow> (string \<rightharpoonup> arg_value) \<Rightarrow> ToolResult \<times> string option"
where
  "getRecentEvents lib m args =
    (let namespace = getStringParam args ''namespace'' ''default'';
         resourceName = getStringParam args ''resourceName'' ''''
     in case k8sService m of
          None \<Rightarrow> serviceUnavailable
        | Some k \<Rightarrow>
            (let labelSelector =
                   (if resourceName \<noteq> '''' then ''involvedObject.name='' @ resourceName else '''')
             in case GatherResources k [''events''] namespace labelSelector of
               (resources, Some err) \<Rightarrow>
                 (textResult (''Error gathering events: '' @ err) True, Some err)
             | (resources, None) \<Rightarrow>
                 (textResult (''Recent events for namespace '' @ quoted namespace
                    @ '':\<newline>\<newline>'' @ jsonMarshalIndent lib (Resources resources ''events''))
                    False,
                  None)))"

definition getPodLogs ::
  "stdlib \<Rightarrow> MCPService \<Rightarrow> (string \<rightharpoonup> arg_value) \<Rightarrow> ToolResult \<times> string option"
where
  "getPodLogs lib m args =
    (let namespace = getStringParam args ''namespace'' ''default'';
         podName = getStringParam args ''podName'' '''';
         containerName = getStringParam args ''containerName'' '''';
         lines = getIntParam lib args ''lines'' 100
     in if podName = '''' then
          (textResult ''Pod name is required for getting logs'' True, Some ''pod name is required'')
        else case k8sService m of
          None \<Rightarrow> serviceUnavailable
        | Some k \<Rightarrow>
            (case GetPodLogs k namespace podName containerName lines of
               (logs, Some err) \<Rightarrow>
                 (textResult (''Error getting pod logs: '' @ err) True, Some err)
             | (logs, None) \<Rightarrow>
                 (textResult (''Logs for pod '' @ quoted podName @ '' in namespace ''
                    @ quoted namespace @ '' (last '' @ formatInt64 lines
                    @ '' lines):\<newline>\<newline>'' @ logs) False,
                  None)))"

definition unknownTool :: "string \<Rightarrow> ToolResult \<times> string option" where
  "unknownTool n = (textResult (''Unknown tool: '' @ n) True, Some (''unknown tool: '' @ n))"

definition notImplemented :: "string \<Rightarrow> ToolResult \<times> string option" where
  "notImplemented n =
     (textResult (''Tool '' @ n @ '' is registered but not implemented'') True,
      Some (''tool not implemented: '' @ n))"

definition ExecuteTool :: "stdlib \<Rightarrow> MCPService \<Rightarrow> ToolRequest \<Rightarrow> ToolResult \<times> string option" where
  "ExecuteTool lib m request =
    (case map_of (tools m) (Name request) of
       None \<Rightarrow> unknownTool (Name request)
     | Some t \<Rightarrow>
        (if Name request = ''get_pod_health'' then getPodHealth lib m (Arguments request)
         else if Name request = ''get_deployment_status'' then
           getDeploymentStatus lib m (Arguments request)
         else if Name request = ''get_service_endpoints'' then
           getServiceEndpoints lib m (Arguments request)
         else if Name request = ''get_recent_events'' then getRecentEvents lib m (Arguments request)
         else if Name request = ''get_pod_logs'' then getPodLogs lib m (Arguments request)
         else notImplemented (Name request)))"


text \<open>What a tool handler can return: a text without error, or one of three errors.\<close>

definition handlerOutcome :: "ToolResult \<times> string option \<Rightarrow> bool" where
  "handlerOutcome r \<longleftrightarrow>
     (\<exists>t. r = (textResult t False, None))
     \<or> r = serviceUnavailable
     \<or> r = (textResult ''Pod name is required for getting logs'' True, Some ''pod name is required'')
     \<or> (\<exists>e. r = (textResult (''Error getting pod logs: '' @ ''failed to get pod logs: '' @ e) True,
                  Some (''failed to get pod logs: '' @ e)))"

section \<open>Query orchestrator (package ai)\<close>

subsection \<open>The functions of package strings that the parser calls\<close>

text \<open>
  Go strings are byte sequences and \<open>Index\<close>, \<open>LastIndex\<close> and \<open>Contains\<close> work on
  bytes; \<open>-1\<close> stands for no occurrence. \<open>sliceOf s lo hi\<close> is \<open>s[lo:hi]\<close>; the parser
  only calls it with \<open>0 \<le> lo \<le> hi \<le> len(s)\<close>, where Go does not panic.
\<close>

fun indexOf :: "string \<Rightarrow> string \<Rightarrow> nat option" where
  "indexOf [] substr = (if substr = [] then Some 0 else None)"
| "indexOf (c # s) substr =
     (if prefix substr (c # s) then Some 0 else map_option Suc (indexOf s substr))"

fun lastIndexOf :: "string \<Rightarrow> string \<Rightarrow> nat option" where
  "lastIndexOf [] substr = (if substr = [] then Some 0 else None)"
| "lastIndexOf (c # s) substr =
     (case lastIndexOf s substr of
        Some i \<Rightarrow> Some (Suc i)
      | None \<Rightarrow> if prefix substr (c # s) then Some 0 else None)"

definition Index :: "string \<Rightarrow> string \<Rightarrow> int" where
  "Index s substr = (case indexOf s substr of None \<Rightarrow> - 1 | Some i \<Rightarrow> int i)"

definition LastIndex :: "string \<Rightarrow> string \<Rightarrow> int" where
  "LastIndex s substr = (case lastIndexOf s substr of None \<Rightarrow> - 1 | Some i \<Rightarrow> int i)"

definition Contains :: "string \<Rightarrow> string \<Rightarrow> bool" where
  "Contains s substr = (Index s substr \<ge> 0)"

definition sliceOf :: "string \<Rightarrow> int \<Rightarrow> int \<Rightarrow> string" where
  "sliceOf s lo hi = take (nat (hi - lo)) (drop (nat lo) s)"

text \<open>
  \<open>TrimSpace\<close> removes leading and trailing white space as Unicode defines it. The
  white-space code points in their UTF-8 encoding: the six of ASCII, U+0085, U+00A0,
  U+1680, U+2028, U+2029, U+202F, U+205F, U+3000 and U+2000 to U+200A.
\<close>

definition spaceRunes :: "string list" where
  "spaceRunes =
     [[CHR 0x09], [CHR 0x0A], [CHR 0x0B], [CHR 0x0C], [CHR 0x0D], [CHR 0x20],
      [CHR 0xC2, CHR 0x85], [CHR 0xC2, CHR 0xA0], [CHR 0xE1, CHR 0x9A, CHR 0x80],
      [CHR 0xE2, CHR 0x80, CHR 0xA8], [CHR 0xE2, CHR 0x80, CHR 0xA9],
      [CHR 0xE2, CHR 0x80, CHR 0xAF], [CHR 0xE2, CHR 0x81, CHR 0x9F],
      [CHR 0xE3, CHR 0x80, CHR 0x80]]
     @ map (\<lambda>b. [CHR 0xE2, CHR 0x80, b])
         [CHR 0x80, CHR 0x81, CHR 0x82, CHR 0x83, CHR 0x84, CHR 0x85, CHR 0x86, CHR 0x87,
          CHR 0x88, CHR 0x89, CHR 0x8A]"

definition spaceWidth :: "string list \<Rightarrow> string \<Rightarrow> nat" where
  "spaceWidth runes s = (case find (\<lambda>w. prefix w s) runes of Some w \<Rightarrow> length w | None \<Rightarrow> 0)"

fun trimLeft :: "string list \<Rightarrow> string \<Rightarrow> string" where
  "trimLeft runes [] = []"
| "trimLeft runes (c # s) =
     (if spaceWidth runes (c # s) = 0 then c # s
      else trimLeft runes (drop (spaceWidth runes (c # s) - 1) s))"

definition TrimSpace :: "string \<Rightarrow> string" where
  "TrimSpace s = rev (trimLeft (map rev spaceRunes) (rev (trimLeft spaceRunes s)))"

subsection \<open>The model client and the response envelope\<close>

text \<open>
  A call of \<open>GenerateContent\<close> returns an error text or the candidates, each given by
  the parts of its content. The client is a function of the number of calls made before
  in this query and of the prompt. \<open>QueryWithMCP\<close> is modelled with the list of the
  prompts it has sent, in order, next to its result.
\<close>

datatype part = TextPart string | OtherPart

type_synonym generation = "string + part list list"

record ai_Service =
  client :: "nat \<Rightarrow> string \<Rightarrow> generation"
  mcpService :: "MCPService option"

record QueryResponse =
  Response :: string
  UsedTool :: bool
  ToolUsed :: string
  RawData :: string
  Error :: string

fun partText :: "part \<Rightarrow> string" where
  "partText (TextPart t) = t"
| "partText OtherPart = ''''"

definition extractText :: "part list \<Rightarrow> string" where
  "extractText parts = foldl (\<lambda>responseText p. responseText @ partText p) '''' parts"

definition decisionPrompt :: "string \<Rightarrow> string \<Rightarrow> string" where
  \<open>decisionPrompt query toolsJSON =
     ''You are a Kubernetes expert assistant. Answer the user'' @ [CHR 0x27]
     @ ''s query using available tools when needed.\<newline>\<newline>Query: '' @ query
     @ ''\<newline>\<newline>Available Tools:\<newline>'' @ toolsJSON
     @ ''\<newline>\<newline>CRITICAL: Respond ONLY with valid JSON. NO explanations, NO markdown, NO code blocks.\<newline>\<newline>If you need cluster data:\<newline>{"action": "use_tool", "tool": "tool_name", "arguments": {"param": "value"}}\<newline>\<newline>If you can answer directly:\<newline>{"action": "answer", "response": "## Your markdown-formatted answer here''
     @ [CHR 0x5C] @ ''n'' @ [CHR 0x5C]
     @ ''nUse proper markdown formatting with headers, bullet points, and **bold** text for better readability."}\<newline>\<newline>Choose the most appropriate tool for the query and respond immediately.''\<close>

definition analysisPrompt :: "string \<Rightarrow> string \<Rightarrow> string" where
  \<open>analysisPrompt query toolOutput =
     ''Based on the following Kubernetes cluster data, provide a comprehensive answer to the user''
     @ [CHR 0x27]
     @ ''s query. \<newline>\<newline>Format your response using markdown for better readability:\<newline>- Use headers (## ) for main sections\<newline>- Use bullet points for lists\<newline>- Use **bold** for important information\<newline>- Use code blocks for kubectl commands or resource names\<newline>- Include specific recommendations and next steps\<newline>\<newline>Original Query: ''
     @ query @ ''\<newline>\<newline>Cluster Data:\<newline>'' @ toolOutput
     @ ''\<newline>\<newline>Provide a well-structured markdown response analyzing this data with clear sections for current state, findings, and recommendations.''\<close>

subsection \<open>Parsing the decision of the model\<close>

definition zeroAction :: ai_action where
  "zeroAction = \<lparr>aiAction = '''', aiTool = '''', aiArguments = Map.empty, aiResponse = ''''\<rparr>"

text \<open>The text handed to the first \<open>json.Unmarshal\<close>: \<open>jsonText\<close>.\<close>

definition jsonTextOf :: "string \<Rightarrow> string" where
  "jsonTextOf responseText =
     (if Contains responseText ''```json'' then
        (let start = Index responseText ''```json'' + 7;
             end = Index (sliceOf responseText start (int (length responseText))) ''```''
         in if end \<noteq> - 1 then TrimSpace (sliceOf responseText start (start + end))
            else responseText)
      else responseText)"

text \<open>
  The decoding into \<open>aiAction\<close>: \<open>Some\<close> of the struct when the code goes on to act on
  it, \<open>None\<close> at the three exits that return the text as a direct response. The second
  \<open>Unmarshal\<close> writes into the struct as the first one left it.
\<close>

definition parseAction :: "stdlib \<Rightarrow> string \<Rightarrow> ai_action option" where
  "parseAction lib responseText =
     (case jsonUnmarshal lib (jsonTextOf responseText) zeroAction of
        (None, a) \<Rightarrow> Some a
      | (Some err, a) \<Rightarrow>
          (if Contains responseText ''{'' \<and> Contains responseText ''}'' then
             (let start = Index responseText ''{'';
                  end = LastIndex responseText ''}''
              in if start \<noteq> - 1 \<and> end \<noteq> - 1 \<and> end > start then
                   (case jsonUnmarshal lib (sliceOf responseText start (end + 1)) a of
                      (None, a') \<Rightarrow> Some a'
                    | (Some err', a') \<Rightarrow> None)
                 else None)
           else None))"

subsection \<open>QueryWithMCP\<close>

definition directResponse :: "string \<Rightarrow> QueryResponse" where
  "directResponse t =
     \<lparr>Response = t, UsedTool = False, ToolUsed = '''', RawData = '''', Error = ''''\<rparr>"

definition toolOutputOf :: "ToolResult \<Rightarrow> string" where
  "toolOutputOf toolResult =
     foldl (\<lambda>toolOutput content. toolOutput @ Text content @ ''\<newline>'') '''' (Content toolResult)"

definition analysisTextOf :: "part list list \<Rightarrow> string" where
  "analysisTextOf candidates =
     (case candidates of
        [] \<Rightarrow> ''''
      | c # cs \<Rightarrow> if length c > 0 then extractText c else '''')"

definition useTool ::
  "stdlib \<Rightarrow> ai_Service \<Rightarrow> MCPService \<Rightarrow> string \<Rightarrow> ai_action \<Rightarrow> string
     \<Rightarrow> (string + QueryResponse) \<times> string list"
where
  "useTool lib s m query a prompt =
     (case ExecuteTool lib m \<lparr>Name = aiTool a, Arguments = aiArguments a\<rparr> of
        (toolResult, Some err) \<Rightarrow>
          (Inr \<lparr>Response = ''Error executing tool '' @ aiTool a @ '': '' @ err,
                UsedTool = True, ToolUsed = aiTool a, RawData = '''', Error = err\<rparr>,
           [prompt])
      | (toolResult, None) \<Rightarrow>
          (let toolOutput = toolOutputOf toolResult;
               analysis = analysisPrompt query toolOutput
           in case client s 1 analysis of
                Inl err \<Rightarrow>
                  (Inr \<lparr>Response = ''Gathered data but failed to analyze: '' @ toolOutput,
                        UsedTool = True, ToolUsed = aiTool a, RawData = '''', Error = ''''\<rparr>,
                   [prompt, analysis])
              | Inr candidates \<Rightarrow>
                  (Inr \<lparr>Response = analysisTextOf candidates,
                        UsedTool = True, ToolUsed = aiTool a, RawData = toolOutput,
                        Error = ''''\<rparr>,
                   [prompt, analysis])))"

definition QueryWithMCP ::
  "stdlib \<Rightarrow> ai_Service \<Rightarrow> string \<Rightarrow> (string + QueryResponse) \<times> string list"
where
  "QueryWithMCP lib s query =
     (case mcpService s of
        None \<Rightarrow> (Inl ''MCP service not available'', [])
      | Some m \<Rightarrow>
          (let prompt = decisionPrompt query (jsonMarshalTools lib (ListTools m))
           in case client s 0 prompt of
                Inl err \<Rightarrow> (Inl (''failed to process query: '' @ err), [prompt])
              | Inr [] \<Rightarrow> (Inl ''no response generated'', [prompt])
              | Inr (c # cs) \<Rightarrow>
                  (if length c = 0 then (Inl ''no response generated'', [prompt])
                   else
                     (let responseText = extractText c
                      in case parseAction lib responseText of
                           None \<Rightarrow> (Inr (directResponse responseText), [prompt])
                         | Some a \<Rightarrow>
                             (if aiAction a = ''use_tool'' then useTool lib s m query a prompt
                              else (Inr (directResponse (aiResponse a)), [prompt]))))))"


subsection \<open>The fallback chain as the specification words it\<close>

text \<open>
  Section 4.5 of the specification: parse the entire text; then, if the text contains a
  fenced code block marked as JSON, the substring between the fence markers; then, if
  the text contains a \<open>{\<close> and a \<open>}\<close>, the substring from the first \<open>{\<close> to the last
  \<open>}\<close>; the first stage that parses gives the decision, and \<open>None\<close> stands for stage 4.
\<close>

definition decode :: "stdlib \<Rightarrow> string \<Rightarrow> ai_action option" where
  "decode lib t = (case jsonUnmarshal lib t zeroAction of (None, a) \<Rightarrow> Some a | (Some err, a) \<Rightarrow> None)"

definition fenceBody :: "string \<Rightarrow> string option" where
  "fenceBody t =
     (if Contains t ''```json'' then
        (let start = Index t ''```json'' + 7;
             end = Index (sliceOf t start (int (length t))) ''```''
         in if end \<noteq> - 1 then Some (sliceOf t start (start + end)) else None)
      else None)"

definition spec_parseAction :: "stdlib \<Rightarrow> string \<Rightarrow> ai_action option" where
  "spec_parseAction lib t =
     (case decode lib t of
        Some a \<Rightarrow> Some a
      | None \<Rightarrow>
          (case Option.bind (fenceBody t) (decode lib) of
             Some a \<Rightarrow> Some a
           | None \<Rightarrow>
               (if Contains t ''{'' \<and> Contains t ''}'' then
                  decode lib (sliceOf t (Index t ''{'') (LastIndex t ''}'' + 1))
                else None)))"

section \<open>Sample cluster, library and model\<close>

text \<open>
  A cluster with two pods in namespace \<open>prod\<close>, no access to pods elsewhere, an
  unreachable services endpoint and one secret with a payload; pod \<open>web-0\<close> has two
  lines of log, the log stream of \<open>web-1\<close> breaks after its first line, and no other
  pod exists.
\<close>

definition sampleSecret :: secret where
  "sampleSecret = \<lparr>SecretName = ''db-credentials'',
     Data = [''password'' \<mapsto> ''aHVudGVyMg==''], StringData = [''user'' \<mapsto> ''admin'']\<rparr>"

definition sampleClientset :: clientset where
  \<open>sampleClientset =
     \<lparr>listPods = (\<lambda>namespace opts.
         if namespace = ''prod'' then Inr [''web-0'', ''web-1'']
         else Inl ''pods is forbidden''),
      listDeployments = (\<lambda>namespace opts. Inr [''web'']),
      listServices = (\<lambda>namespace opts. Inl ''connection refused''),
      listConfigMaps = (\<lambda>namespace opts. Inr []),
      listSecrets = (\<lambda>namespace opts. Inr [sampleSecret]),
      listEvents = (\<lambda>namespace opts. Inr []),
      listReplicaSets = (\<lambda>namespace opts. Inr []),
      streamLogs = (\<lambda>namespace podName opts.
         if podName = ''web-0'' then Inr ([''line 1\<newline>''], (''line 2\<newline>'', EOF))
         else if podName = ''web-1'' then
           Inr ([''line 1\<newline>''], ('''', ReadFailed ''connection reset by peer''))
         else Inl (''pods "'' @ podName @ ''" not found''))\<rparr>\<close>

definition sampleService :: Service where
  "sampleService =
     \<lparr>clientset = sampleClientset, contextName = ''kind-dev'', now = ''2024-05-01T12:00:00Z''\<rparr>"

text \<open>
  What \<open>json.Unmarshal\<close> does on the few texts the examples decode: a JSON object sets
  the fields it names and leaves the others; anything else listed here is no JSON.
\<close>

definition sampleAnswer :: string where
  \<open>sampleAnswer =
     ''{"action":"answer","response":"Wrap the manifest in ```json {} ``` when posting"}''\<close>

definition samplePodHealthCall :: string where
  \<open>samplePodHealthCall =
     ''{"action":"use_tool","tool":"get_pod_health","arguments":{"namespace":"prod"}}''\<close>

definition sampleUnknownToolCall :: string where
  \<open>sampleUnknownToolCall = ''{"action":"use_tool","tool":"restart_pod","arguments":{}}''\<close>

text \<open>The same tool calls inside a fenced block and inside prose.\<close>

definition sampleFencedCall :: string where
  "sampleFencedCall = ''Sure.\<newline>```json\<newline>'' @ samplePodHealthCall @ ''\<newline>```''"

definition sampleProseCall :: string where
  "sampleProseCall = ''I would call '' @ sampleUnknownToolCall @ '' next.''"

definition sampleUnmarshal :: "string \<Rightarrow> ai_action \<Rightarrow> string option \<times> ai_action" where
  \<open>sampleUnmarshal data a =
     (if data = sampleAnswer then
        (None, a\<lparr>aiAction := ''answer'',
                 aiResponse := ''Wrap the manifest in ```json {} ``` when posting''\<rparr>)
      else if data = ''{}'' \<or> data = '' {} '' \<or> data = ''{"status":"ok"}'' then (None, a)
      else if data = samplePodHealthCall then
        (None, a\<lparr>aiAction := ''use_tool'', aiTool := ''get_pod_health'',
                 aiArguments := [''namespace'' \<mapsto> VString ''prod'']\<rparr>)
      else if data = sampleUnknownToolCall then
        (None, a\<lparr>aiAction := ''use_tool'', aiTool := ''restart_pod'',
                 aiArguments := Map.empty\<rparr>)
      else (Some ''invalid character'', a))\<close>

definition sampleLib :: stdlib where
  \<open>sampleLib =
     \<lparr>jsonUnmarshal = sampleUnmarshal,
      jsonMarshalIndent = (\<lambda>v. case v of
         None \<Rightarrow> ''null''
       | Some (PodList pods) \<Rightarrow> ''{"items": ['' @ concat (map (\<lambda>p. ''"'' @ p @ ''" '') pods) @ '']}''
       | Some r \<Rightarrow> ''{}''),
      jsonMarshalTools = (\<lambda>ts. concat (map (\<lambda>t. toolName t @ '' '') ts)),
      float64ToInt64 = (\<lambda>v. 0)\<rparr>\<close>

text \<open>
  What the pod health tool returns for namespace \<open>prod\<close> of the sample cluster, and the
  text that the orchestrator concatenates from it.
\<close>

definition samplePodHealthResult :: ToolResult where
  \<open>samplePodHealthResult =
     textResult (''Pod health information for namespace '' @ quoted ''prod''
       @ '':\<newline>\<newline>{"items": ["web-0" "web-1" ]}'') False\<close>

definition samplePodHealthOutput :: string where
  \<open>samplePodHealthOutput =
     ''Pod health information for namespace '' @ quoted ''prod''
     @ '':\<newline>\<newline>{"items": ["web-0" "web-1" ]}\<newline>''\<close>

text \<open>
  An orchestrator over the cluster \<open>k\<close> whose model gives \<open>first\<close> on its first call
  and \<open>second\<close> on every later one.
\<close>

definition sampleAI :: "Service option \<Rightarrow> generation \<Rightarrow> generation \<Rightarrow> ai_Service" where
  "sampleAI k first second =
     \<lparr>client = (\<lambda>n prompt. if n = 0 then first else second),
      mcpService = Some (NewMCPService k)\<rparr>"

section \<open>Properties of the resource gatherer\<close>

lemma gatherOne_eq:
  "gatherOne cs ns lo k res = res(entryKey cs ns lo k \<mapsto> entryValue cs ns lo k)"
  by (simp add: gatherOne_def entryKey_def entryValue_def listKind_def split: sum.splits)

lemma listKind_Some_last:
  "listKind cs k ns lo = Some x \<Longrightarrow> last k = CHR ''s''"
  by (simp add: listKind_def split: if_splits)

lemma entryKey_cases:
  "entryKey cs ns lo k = k \<and> last k = CHR ''s'' \<or> entryKey cs ns lo k = k @ ''_error''"
  by (auto simp: entryKey_def split: option.splits sum.splits dest: listKind_Some_last)

text \<open>
  No two kinds write the same key: a key of a supported kind ends in \<open>s\<close>, an error key
  in \<open>r\<close>.
\<close>

lemma entryKey_inj:
  assumes "entryKey cs ns lo k = entryKey cs ns lo k'"
  shows "k = k'"
proof -
  have e: "last (x @ ''_error'') = CHR ''r''" for x :: string by simp
  from entryKey_cases [of cs ns lo k] entryKey_cases [of cs ns lo k'] assms e [of k] e [of k']
  show ?thesis by auto
qed

lemma gatherLoop_other:
  "\<forall>k\<in>set ks. entryKey cs ns lo k \<noteq> key \<Longrightarrow> gatherLoop cs ns lo ks res key = res key"
  by (induction ks arbitrary: res) (auto simp: gatherOne_eq)

lemma gatherLoop_entry:
  "k \<in> set ks \<Longrightarrow>
   gatherLoop cs ns lo ks res (entryKey cs ns lo k) = Some (entryValue cs ns lo k)"
proof (induction ks arbitrary: res)
  case Nil
  then show ?case by simp
next
  case (Cons a ks)
  show ?case
  proof (cases "k \<in> set ks")
    case True
    then show ?thesis using Cons.IH by simp
  next
    case False
    with Cons.prems have ka: "k = a" by simp
    have "\<forall>k'\<in>set ks. entryKey cs ns lo k' \<noteq> entryKey cs ns lo k"
      using False entryKey_inj by metis
    then show ?thesis
      using ka by (simp add: gatherLoop_other gatherOne_eq)
  qed
qed

lemma gatherLoop_set:
  assumes "set ks = set ks'"
  shows "gatherLoop cs ns lo ks Map.empty = gatherLoop cs ns lo ks' Map.empty"
proof
  fix key
  show "gatherLoop cs ns lo ks Map.empty key = gatherLoop cs ns lo ks' Map.empty key"
  proof (cases "\<exists>k\<in>set ks. entryKey cs ns lo k = key")
    case True
    then obtain k where k: "k \<in> set ks" "entryKey cs ns lo k = key" by blast
    then have "k \<in> set ks'" using assms by simp
    then show ?thesis using k gatherLoop_entry by metis
  next
    case False
    then show ?thesis using assms by (simp add: gatherLoop_other)
  qed
qed

lemma redacted_entryValue: "redacted (entryValue cs ns lo k)"
proof -
  have "redacted (redactResource v)" for v
    by (cases v) (simp_all add: list_all_iff redact_def)
  then show ?thesis
    by (simp add: entryValue_def split: option.splits sum.splits)
qed

lemma gatherLoop_redacted:
  "\<forall>key v. res key = Some v \<longrightarrow> redacted v \<Longrightarrow>
   gatherLoop cs ns lo ks res key = Some v \<Longrightarrow> redacted v"
proof (induction ks arbitrary: res)
  case Nil
  then show ?case by simp
next
  case (Cons a ks)
  have "\<forall>key v. gatherOne cs ns lo a res key = Some v \<longrightarrow> redacted v"
    using Cons.prems(1) by (simp add: gatherOne_eq redacted_entryValue)
  then show ?case using Cons.IH Cons.prems(2) by simp
qed

lemma Resources_GatherResources:
  "Resources (fst (GatherResources svc ks namespace labelSelector)) =
   gatherLoop (clientset svc) (defaultNamespace namespace) (makeListOptions labelSelector) ks
     Map.empty"
  by (simp add: GatherResources_def Let_def)

lemma GatherResources_no_error: "snd (GatherResources svc ks namespace labelSelector) = None"
  by (simp add: GatherResources_def Let_def)

text \<open>
  C1. Whenever the requested kinds include \<open>secrets\<close>, for every service, namespace and
  label selector: every secret item found anywhere in the returned result has empty
  \<open>Data\<close> and \<open>StringData\<close>; and when the cluster lists the secrets, the result holds
  them under the key \<open>secrets\<close>, each with both payload maps cleared, whatever they held.
  \<open>GatherResources\<close> has no parameter besides those quantified here.
\<close>

theorem gather_redacts_secrets:
  assumes "''secrets'' \<in> set resourceTypes"
  shows "(\<forall>key items s.
            Resources (fst (GatherResources svc resourceTypes namespace labelSelector)) key
              = Some (SecretList items) \<and> s \<in> set items
            \<longrightarrow> Data s = Map.empty \<and> StringData s = Map.empty)
       \<and> (\<forall>secrets.
            listSecrets (clientset svc) (defaultNamespace namespace)
              (makeListOptions labelSelector) = Inr secrets
            \<longrightarrow> Resources (fst (GatherResources svc resourceTypes namespace labelSelector))
                  ''secrets''
                = Some (SecretList
                    (map (\<lambda>s. s\<lparr>Data := Map.empty, StringData := Map.empty\<rparr>) secrets)))"
proof (intro conjI allI impI)
  fix key items s
  assume a: "Resources (fst (GatherResources svc resourceTypes namespace labelSelector)) key
               = Some (SecretList items) \<and> s \<in> set items"
  then have "gatherLoop (clientset svc) (defaultNamespace namespace)
      (makeListOptions labelSelector) resourceTypes Map.empty key = Some (SecretList items)"
    by (simp add: Resources_GatherResources)
  then have "redacted (SecretList items)"
    by (rule gatherLoop_redacted [rotated]) simp
  with a show "Data s = Map.empty" and "StringData s = Map.empty"
    by (simp_all add: list_all_iff)
next
  fix secrets
  let ?cs = "clientset svc" and ?ns = "defaultNamespace namespace"
  let ?lo = "makeListOptions labelSelector"
  assume l: "listSecrets ?cs ?ns ?lo = Inr secrets"
  then have k: "entryKey ?cs ?ns ?lo ''secrets'' = ''secrets''"
    and v: "entryValue ?cs ?ns ?lo ''secrets'' = SecretList (map redact secrets)"
    by (simp_all add: entryKey_def entryValue_def listKind_def)
  have r: "redact = (\<lambda>s. s\<lparr>Data := Map.empty, StringData := Map.empty\<rparr>)"
    by (rule ext) (simp add: redact_def)
  show "Resources (fst (GatherResources svc resourceTypes namespace labelSelector)) ''secrets''
        = Some (SecretList (map (\<lambda>s. s\<lparr>Data := Map.empty, StringData := Map.empty\<rparr>) secrets))"
    using gatherLoop_entry [OF assms, of ?cs ?ns ?lo Map.empty] k v r
    by (simp add: Resources_GatherResources)
qed

theorem gather_redacts_secrets_witness:
  "''secrets'' \<in> set [''pods'', ''secrets'']
   \<and> Data sampleSecret \<noteq> Map.empty \<and> StringData sampleSecret \<noteq> Map.empty
   \<and> Resources (fst (GatherResources sampleService [''pods'', ''secrets''] ''prod'' ''app=web''))
       ''secrets''
     = Some (SecretList
         [\<lparr>SecretName = ''db-credentials'', Data = Map.empty, StringData = Map.empty\<rparr>])"
proof -
  have h: "''secrets'' \<in> set [''pods'', ''secrets'']" by simp
  have l: "listSecrets (clientset sampleService) (defaultNamespace ''prod'')
             (makeListOptions ''app=web'') = Inr [sampleSecret]"
    by (simp add: sampleService_def sampleClientset_def)
  have n: "Data sampleSecret \<noteq> Map.empty" "StringData sampleSecret \<noteq> Map.empty"
    by (simp_all add: sampleSecret_def)
  from gather_redacts_secrets [OF h, of sampleService "''prod''" "''app=web''"] l
  have "Resources (fst (GatherResources sampleService [''pods'', ''secrets''] ''prod'' ''app=web''))
          ''secrets''
        = Some (SecretList
            (map (\<lambda>s. s\<lparr>Data := Map.empty, StringData := Map.empty\<rparr>) [sampleSecret]))"
    by blast
  then show ?thesis using h n by (simp add: sampleSecret_def)
qed

text \<open>
  C2. A gather call never fails as a whole, and each requested kind is reported on its
  own, whatever else is requested: a kind whose list query succeeds is in the result
  under its own key (a list of secrets with its payloads cleared), a kind whose query
  fails is under \<open><kind>_error\<close> with the error text, and a kind that has no list query
  is under \<open><kind>_error\<close> with the unsupported-type message. The result depends only on
  the set of kinds requested, not on their order.
\<close>

theorem gather_isolates_kinds:
  "snd (GatherResources svc resourceTypes namespace labelSelector) = None
   \<and> (\<forall>k\<in>set resourceTypes.
        case listKind (clientset svc) k (defaultNamespace namespace)
               (makeListOptions labelSelector) of
          Some (Inr v) \<Rightarrow>
            Resources (fst (GatherResources svc resourceTypes namespace labelSelector)) k
              = Some (redactResource v)
        | Some (Inl err) \<Rightarrow>
            Resources (fst (GatherResources svc resourceTypes namespace labelSelector))
              (k @ ''_error'') = Some (ErrorText err)
        | None \<Rightarrow>
            Resources (fst (GatherResources svc resourceTypes namespace labelSelector))
              (k @ ''_error'') = Some (ErrorText (''unsupported resource type: '' @ k)))
   \<and> (\<forall>resourceTypes'. set resourceTypes' = set resourceTypes \<longrightarrow>
        GatherResources svc resourceTypes' namespace labelSelector
          = GatherResources svc resourceTypes namespace labelSelector)"
proof (intro conjI ballI allI impI)
  show "snd (GatherResources svc resourceTypes namespace labelSelector) = None"
    by (rule GatherResources_no_error)
next
  fix k
  assume "k \<in> set resourceTypes"
  from gatherLoop_entry [OF this, of "clientset svc" "defaultNamespace namespace"
      "makeListOptions labelSelector" Map.empty]
  show "case listKind (clientset svc) k (defaultNamespace namespace)
               (makeListOptions labelSelector) of
          Some (Inr v) \<Rightarrow>
            Resources (fst (GatherResources svc resourceTypes namespace labelSelector)) k
              = Some (redactResource v)
        | Some (Inl err) \<Rightarrow>
            Resources (fst (GatherResources svc resourceTypes namespace labelSelector))
              (k @ ''_error'') = Some (ErrorText err)
        | None \<Rightarrow>
            Resources (fst (GatherResources svc resourceTypes namespace labelSelector))
              (k @ ''_error'') = Some (ErrorText (''unsupported resource type: '' @ k))"
    by (simp add: Resources_GatherResources entryKey_def entryValue_def
        split: option.splits sum.splits)
next
  fix resourceTypes'
  assume "set resourceTypes' = set resourceTypes"
  then show "GatherResources svc resourceTypes' namespace labelSelector
             = GatherResources svc resourceTypes namespace labelSelector"
    using gatherLoop_set [of resourceTypes' resourceTypes]
    by (simp add: GatherResources_def Let_def)
qed

theorem gather_isolates_kinds_witness:
  "Resources (fst (GatherResources sampleService [''bogus'', ''services'', ''pods''] ''prod'' ''''))
     ''pods'' = Some (PodList [''web-0'', ''web-1''])
   \<and> Resources (fst (GatherResources sampleService [''bogus'', ''services'', ''pods''] ''prod'' ''''))
       ''services_error'' = Some (ErrorText ''connection refused'')
   \<and> Resources (fst (GatherResources sampleService [''bogus'', ''services'', ''pods''] ''prod'' ''''))
       ''bogus_error'' = Some (ErrorText ''unsupported resource type: bogus'')
   \<and> GatherResources sampleService [''pods'', ''bogus'', ''services''] ''prod'' ''''
     = GatherResources sampleService [''bogus'', ''services'', ''pods''] ''prod'' ''''"
proof -
  note t = gather_isolates_kinds [of sampleService "[''bogus'', ''services'', ''pods'']"
      "''prod''" "''''"]
  have s: "set [''pods'', ''bogus'', ''services''] = set [''bogus'', ''services'', ''pods'']"
    by auto
  from t s have "GatherResources sampleService [''pods'', ''bogus'', ''services''] ''prod'' ''''
     = GatherResources sampleService [''bogus'', ''services'', ''pods''] ''prod'' ''''"
    by blast
  moreover from t have "\<forall>k\<in>set [''bogus'', ''services'', ''pods''].
        case listKind (clientset sampleService) k (defaultNamespace ''prod'')
               (makeListOptions '''') of
          Some (Inr v) \<Rightarrow>
            Resources (fst (GatherResources sampleService [''bogus'', ''services'', ''pods'']
              ''prod'' '''')) k = Some (redactResource v)
        | Some (Inl err) \<Rightarrow>
            Resources (fst (GatherResources sampleService [''bogus'', ''services'', ''pods'']
              ''prod'' '''')) (k @ ''_error'') = Some (ErrorText err)
        | None \<Rightarrow>
            Resources (fst (GatherResources sampleService [''bogus'', ''services'', ''pods'']
              ''prod'' '''')) (k @ ''_error'')
              = Some (ErrorText (''unsupported resource type: '' @ k))"
    by blast
  ultimately show ?thesis
    by (simp add: listKind_def sampleService_def sampleClientset_def defaultNamespace_def)
qed


section \<open>Properties of log retrieval\<close>

lemma readLoop_concat: "readLoop reads (buf, err) result = result @ concat reads @ buf"
  by (induction reads arbitrary: result) auto

lemma GetPodLogs_open_failure:
  "streamLogs (clientset s) namespace podName (podLogOptions containerName lines) = Inl e \<Longrightarrow>
   GetPodLogs s namespace podName containerName lines
     = ('''', Some (''failed to get pod logs: '' @ e))"
  by (simp add: GetPodLogs_def)

lemma GetPodLogs_never_text_with_error:
  "GetPodLogs s namespace podName containerName lines = (logs, Some e) \<Longrightarrow> logs = ''''"
  by (auto simp: GetPodLogs_def split: sum.splits)

lemma GetPodLogs_tail_limit:
  "TailLines (podLogOptions containerName lines) = (if 0 < sint lines then Some lines else None)"
  by (simp add: podLogOptions_def)

text \<open>Whatever error ends the reading, the bytes read so far are returned as a success.\<close>

lemma GetPodLogs_read_error_dropped:
  "streamLogs (clientset s) namespace podName (podLogOptions containerName lines)
     = Inr (reads, (buf, err)) \<Longrightarrow>
   GetPodLogs s namespace podName containerName lines = (concat reads @ buf, None)"
  by (simp add: GetPodLogs_def readLoop_concat)

text \<open>
  C9, at a log stream that breaks after its first line (pod \<open>web-1\<close> of the sample
  cluster): the failure of the connection is not reported; \<open>GetPodLogs\<close> returns the
  line read before it, with no error.
\<close>

theorem pod_logs_broken_stream_returns_partial_text:
  "streamLogs (clientset sampleService) ''prod'' ''web-1'' (podLogOptions '''' 100)
     = Inr ([''line 1\<newline>''], ('''', ReadFailed ''connection reset by peer''))
   \<and> GetPodLogs sampleService ''prod'' ''web-1'' '''' 100 = (''line 1\<newline>'', None)"
  by (simp add: GetPodLogs_def sampleService_def sampleClientset_def)

section \<open>Properties of the tool executor\<close>

lemma GatherResources_snd: "GatherResources k ks ns sel = (r, e) \<Longrightarrow> e = None"
  by (auto simp: GatherResources_def Let_def)

lemma getPodHealth_cases:
  "getPodHealth lib m args = serviceUnavailable
   \<or> (\<exists>t. getPodHealth lib m args = (textResult t False, None))"
  by (cases "k8sService m") (auto simp: getPodHealth_def Let_def GatherResources_def)

lemma getDeploymentStatus_cases:
  "getDeploymentStatus lib m args = serviceUnavailable
   \<or> (\<exists>t. getDeploymentStatus lib m args = (textResult t False, None))"
  by (cases "k8sService m") (auto simp: getDeploymentStatus_def Let_def GatherResources_def)

lemma getServiceEndpoints_cases:
  "getServiceEndpoints lib m args = serviceUnavailable
   \<or> (\<exists>t. getServiceEndpoints lib m args = (textResult t False, None))"
  by (cases "k8sService m") (auto simp: getServiceEndpoints_def Let_def GatherResources_def)

lemma getRecentEvents_cases:
  "getRecentEvents lib m args = serviceUnavailable
   \<or> (\<exists>t. getRecentEvents lib m args = (textResult t False, None))"
  by (cases "k8sService m") (auto simp: getRecentEvents_def Let_def GatherResources_def)

lemma getPodLogs_cases:
  "getPodLogs lib m args
     = (textResult ''Pod name is required for getting logs'' True, Some ''pod name is required'')
   \<or> getPodLogs lib m args = serviceUnavailable
   \<or> (\<exists>e. getPodLogs lib m args
         = (textResult (''Error getting pod logs: '' @ ''failed to get pod logs: '' @ e) True,
            Some (''failed to get pod logs: '' @ e)))
   \<or> (\<exists>t. getPodLogs lib m args = (textResult t False, None))"
  by (cases "k8sService m")
    (auto simp: getPodLogs_def Let_def GetPodLogs_def split: sum.splits)

lemma handlers_outcome:
  "handlerOutcome (getPodHealth lib m args)"
  "handlerOutcome (getDeploymentStatus lib m args)"
  "handlerOutcome (getServiceEndpoints lib m args)"
  "handlerOutcome (getRecentEvents lib m args)"
  "handlerOutcome (getPodLogs lib m args)"
  using getPodHealth_cases [of lib m args] getDeploymentStatus_cases [of lib m args]
    getServiceEndpoints_cases [of lib m args] getRecentEvents_cases [of lib m args]
    getPodLogs_cases [of lib m args]
  unfolding handlerOutcome_def by blast+

lemma handlerOutcome_error_iff: "handlerOutcome r \<Longrightarrow> IsError (fst r) \<longleftrightarrow> snd r \<noteq> None"
  by (auto simp: handlerOutcome_def textResult_def serviceUnavailable_def)

lemma handlerOutcome_error_text: "handlerOutcome r \<Longrightarrow> snd r = Some err \<Longrightarrow> err \<noteq> ''''"
  by (auto simp: handlerOutcome_def serviceUnavailable_def)

lemma handlerOutcome_not_notImplemented: "handlerOutcome r \<Longrightarrow> r \<noteq> notImplemented n"
  by (auto simp: handlerOutcome_def serviceUnavailable_def notImplemented_def textResult_def)

lemma ExecuteTool_cases:
  "ExecuteTool lib m request = unknownTool (Name request)
   \<or> ExecuteTool lib m request = notImplemented (Name request)
   \<or> handlerOutcome (ExecuteTool lib m request)"
  by (simp add: ExecuteTool_def handlers_outcome split: option.splits)

lemma ExecuteTool_error_iff:
  "IsError (fst (ExecuteTool lib m request)) \<longleftrightarrow> snd (ExecuteTool lib m request) \<noteq> None"
proof -
  consider "ExecuteTool lib m request = unknownTool (Name request)"
    | "ExecuteTool lib m request = notImplemented (Name request)"
    | "handlerOutcome (ExecuteTool lib m request)"
    using ExecuteTool_cases by blast
  then show ?thesis
  proof cases
    case 1
    then show ?thesis by (simp add: unknownTool_def textResult_def)
  next
    case 2
    then show ?thesis by (simp add: notImplemented_def textResult_def)
  next
    case 3
    then show ?thesis by (rule handlerOutcome_error_iff)
  qed
qed

lemma ExecuteTool_error_text:
  assumes "snd (ExecuteTool lib m request) = Some err"
  shows "err \<noteq> ''''"
proof -
  consider "ExecuteTool lib m request = unknownTool (Name request)"
    | "ExecuteTool lib m request = notImplemented (Name request)"
    | "handlerOutcome (ExecuteTool lib m request)"
    using ExecuteTool_cases by blast
  then show ?thesis
  proof cases
    case 1
    with assms show ?thesis by (auto simp: unknownTool_def)
  next
    case 2
    with assms show ?thesis by (auto simp: notImplemented_def)
  next
    case 3
    then show ?thesis using assms by (rule handlerOutcome_error_text)
  qed
qed

lemma registerTools_names:
  "map_of registerTools n = Some t \<Longrightarrow>
   n \<in> {''get_pod_health'', ''get_deployment_status'', ''get_service_endpoints'',
        ''get_recent_events'', ''get_pod_logs''}"
  by (simp add: registerTools_def split: if_splits)

text \<open>
  C8. For every catalog and every tool name that is not in it, \<open>ExecuteTool\<close> returns
  an outcome with \<open>IsError\<close> set and a single text block that reads \<open>Unknown tool: \<close>
  followed by the attempted name, together with an error value; it does so as an
  ordinary return.
\<close>

theorem unknown_tool_outcome:
  assumes "map_of (tools m) (Name request) = None"
  shows "ExecuteTool lib m request
         = (\<lparr>Content = [\<lparr>Type = ''text'', Text = ''Unknown tool: '' @ Name request\<rparr>],
             IsError = True\<rparr>,
            Some (''unknown tool: '' @ Name request))"
  using assms by (simp add: ExecuteTool_def unknownTool_def textResult_def)

theorem unknown_tool_outcome_witness:
  "map_of (tools (NewMCPService (Some sampleService))) ''restart_pod'' = None
   \<and> ExecuteTool sampleLib (NewMCPService (Some sampleService))
       \<lparr>Name = ''restart_pod'', Arguments = Map.empty\<rparr>
     = (\<lparr>Content = [\<lparr>Type = ''text'', Text = ''Unknown tool: restart_pod''\<rparr>], IsError = True\<rparr>,
        Some ''unknown tool: restart_pod'')"
proof -
  have h: "map_of (tools (NewMCPService (Some sampleService)))
             (Name \<lparr>Name = ''restart_pod'', Arguments = Map.empty\<rparr>) = None"
    by (simp add: NewMCPService_def registerTools_def)
  from unknown_tool_outcome [OF h, of sampleLib] h show ?thesis by simp
qed

text \<open>
  C10. In a service built by \<open>NewMCPService\<close>, whenever the catalog lookup succeeds the
  name is one of the five registered ones and \<open>ExecuteTool\<close> returns what the handler of
  that name returns; the outcome of the branch "registered but not implemented" never
  arises.
\<close>

theorem registered_tools_have_handlers:
  assumes "map_of (tools (NewMCPService k)) (Name request) = Some t"
  shows "Name request \<in> {''get_pod_health'', ''get_deployment_status'',
            ''get_service_endpoints'', ''get_recent_events'', ''get_pod_logs''}
       \<and> ExecuteTool lib (NewMCPService k) request
         = (if Name request = ''get_pod_health'' then
              getPodHealth lib (NewMCPService k) (Arguments request)
            else if Name request = ''get_deployment_status'' then
              getDeploymentStatus lib (NewMCPService k) (Arguments request)
            else if Name request = ''get_service_endpoints'' then
              getServiceEndpoints lib (NewMCPService k) (Arguments request)
            else if Name request = ''get_recent_events'' then
              getRecentEvents lib (NewMCPService k) (Arguments request)
            else getPodLogs lib (NewMCPService k) (Arguments request))
       \<and> ExecuteTool lib (NewMCPService k) request \<noteq> notImplemented (Name request)"
proof -
  from assms have n: "Name request \<in> {''get_pod_health'', ''get_deployment_status'',
      ''get_service_endpoints'', ''get_recent_events'', ''get_pod_logs''}"
    using registerTools_names by (simp add: NewMCPService_def)
  then have e: "ExecuteTool lib (NewMCPService k) request
         = (if Name request = ''get_pod_health'' then
              getPodHealth lib (NewMCPService k) (Arguments request)
            else if Name request = ''get_deployment_status'' then
              getDeploymentStatus lib (NewMCPService k) (Arguments request)
            else if Name request = ''get_service_endpoints'' then
              getServiceEndpoints lib (NewMCPService k) (Arguments request)
            else if Name request = ''get_recent_events'' then
              getRecentEvents lib (NewMCPService k) (Arguments request)
            else getPodLogs lib (NewMCPService k) (Arguments request))"
    using assms by (auto simp: ExecuteTool_def)
  then have "handlerOutcome (ExecuteTool lib (NewMCPService k) request)"
    by (simp add: handlers_outcome)
  then have "ExecuteTool lib (NewMCPService k) request \<noteq> notImplemented (Name request)"
    by (rule handlerOutcome_not_notImplemented)
  with n e show ?thesis by blast
qed

theorem registered_tools_have_handlers_witness:
  "map_of (tools (NewMCPService (Some sampleService))) ''get_pod_logs'' \<noteq> None
   \<and> ExecuteTool sampleLib (NewMCPService (Some sampleService))
       \<lparr>Name = ''get_pod_logs'', Arguments = [''podName'' \<mapsto> VString ''web-0'']\<rparr>
     = getPodLogs sampleLib (NewMCPService (Some sampleService))
         [''podName'' \<mapsto> VString ''web-0'']
   \<and> ExecuteTool sampleLib (NewMCPService (Some sampleService))
       \<lparr>Name = ''get_pod_logs'', Arguments = [''podName'' \<mapsto> VString ''web-0'']\<rparr>
     \<noteq> notImplemented ''get_pod_logs''"
proof -
  obtain t where h: "map_of (tools (NewMCPService (Some sampleService)))
      (Name \<lparr>Name = ''get_pod_logs'', Arguments = [''podName'' \<mapsto> VString ''web-0'']\<rparr>) = Some t"
    by (simp add: NewMCPService_def registerTools_def)
  note r = registered_tools_have_handlers [OF h, of sampleLib, simplified]
  from h have "map_of (tools (NewMCPService (Some sampleService))) ''get_pod_logs'' \<noteq> None"
    by simp
  with r show ?thesis by blast
qed


section \<open>Properties of the query orchestrator\<close>

text \<open>Once the first model call has produced a candidate with content, the query is answered.\<close>

lemma QueryWithMCP_decided:
  assumes "mcpService s = Some m"
    and "client s 0 (decisionPrompt query (jsonMarshalTools lib (ListTools m))) = Inr (c # cs)"
    and "c \<noteq> []"
  shows "QueryWithMCP lib s query =
          (case parseAction lib (extractText c) of
             None \<Rightarrow> (Inr (directResponse (extractText c)),
                       [decisionPrompt query (jsonMarshalTools lib (ListTools m))])
           | Some a \<Rightarrow>
               if aiAction a = ''use_tool'' then
                 useTool lib s m query a (decisionPrompt query (jsonMarshalTools lib (ListTools m)))
               else (Inr (directResponse (aiResponse a)),
                     [decisionPrompt query (jsonMarshalTools lib (ListTools m))]))"
  using assms by (simp add: QueryWithMCP_def Let_def)

lemma useTool_error:
  assumes "snd (ExecuteTool lib m \<lparr>Name = aiTool a, Arguments = aiArguments a\<rparr>) = Some err"
  shows "useTool lib s m query a prompt =
          (Inr \<lparr>Response = ''Error executing tool '' @ aiTool a @ '': '' @ err,
                UsedTool = True, ToolUsed = aiTool a, RawData = '''', Error = err\<rparr>,
           [prompt])"
  using assms
  by (cases "ExecuteTool lib m \<lparr>Name = aiTool a, Arguments = aiArguments a\<rparr>")
    (simp add: useTool_def)

lemma useTool_analysis_error:
  assumes "ExecuteTool lib m \<lparr>Name = aiTool a, Arguments = aiArguments a\<rparr> = (toolResult, None)"
    and "client s 1 (analysisPrompt query (toolOutputOf toolResult)) = Inl e"
  shows "useTool lib s m query a prompt =
          (Inr \<lparr>Response = ''Gathered data but failed to analyze: '' @ toolOutputOf toolResult,
                UsedTool = True, ToolUsed = aiTool a, RawData = '''', Error = ''''\<rparr>,
           [prompt, analysisPrompt query (toolOutputOf toolResult)])"
  using assms by (simp add: useTool_def Let_def)

lemma sample_parse_pod_health:
  "parseAction sampleLib (extractText [TextPart samplePodHealthCall])
     = Some \<lparr>aiAction = ''use_tool'', aiTool = ''get_pod_health'',
             aiArguments = [''namespace'' \<mapsto> VString ''prod''], aiResponse = ''''\<rparr>"
  by (simp add: parseAction_def extractText_def jsonTextOf_def Contains_def Index_def
      sampleLib_def sampleUnmarshal_def samplePodHealthCall_def sampleAnswer_def zeroAction_def)

lemma sample_parse_unknown_tool:
  "parseAction sampleLib (extractText [TextPart sampleUnknownToolCall])
     = Some \<lparr>aiAction = ''use_tool'', aiTool = ''restart_pod'',
             aiArguments = Map.empty, aiResponse = ''''\<rparr>"
  by (simp add: parseAction_def extractText_def jsonTextOf_def Contains_def Index_def
      sampleLib_def sampleUnmarshal_def samplePodHealthCall_def sampleUnknownToolCall_def
      sampleAnswer_def zeroAction_def)

lemma sample_pod_health_result:
  "ExecuteTool sampleLib (NewMCPService (Some sampleService))
     \<lparr>Name = ''get_pod_health'', Arguments = [''namespace'' \<mapsto> VString ''prod'']\<rparr>
   = (samplePodHealthResult, None)"
  by (simp add: ExecuteTool_def NewMCPService_def registerTools_def getPodHealth_def
      getStringParam_def GatherResources_def gatherOne_def defaultNamespace_def
      sampleService_def sampleClientset_def sampleLib_def samplePodHealthResult_def)

lemma sample_pod_health_output: "toolOutputOf samplePodHealthResult = samplePodHealthOutput"
  by (simp add: toolOutputOf_def textResult_def samplePodHealthOutput_def
      samplePodHealthResult_def)

text \<open>
  C5. Whenever the model asks for a tool and \<open>ExecuteTool\<close> returns an error, for an
  unknown tool name as for any other cause, the query still completes: the result is a
  response (not a request-level error) with \<open>UsedTool\<close> set, \<open>ToolUsed\<close> the attempted
  name, \<open>Response\<close> the message \<open>Error executing tool <name>: <error>\<close> and \<open>Error\<close> the
  text of the error, which is never empty.
\<close>

theorem tool_error_completes_query:
  assumes "mcpService s = Some m"
    and "client s 0 (decisionPrompt query (jsonMarshalTools lib (ListTools m))) = Inr (c # cs)"
    and "c \<noteq> []"
    and "parseAction lib (extractText c) = Some a"
    and "aiAction a = ''use_tool''"
    and "snd (ExecuteTool lib m \<lparr>Name = aiTool a, Arguments = aiArguments a\<rparr>) = Some err"
  shows "fst (QueryWithMCP lib s query)
           = Inr \<lparr>Response = ''Error executing tool '' @ aiTool a @ '': '' @ err,
                  UsedTool = True, ToolUsed = aiTool a, RawData = '''', Error = err\<rparr>
         \<and> err \<noteq> ''''
         \<and> (map_of (tools m) (aiTool a) = None \<longrightarrow> err = ''unknown tool: '' @ aiTool a)"
proof -
  have "fst (QueryWithMCP lib s query)
           = Inr \<lparr>Response = ''Error executing tool '' @ aiTool a @ '': '' @ err,
                  UsedTool = True, ToolUsed = aiTool a, RawData = '''', Error = err\<rparr>"
    using assms by (simp add: QueryWithMCP_decided useTool_error)
  moreover have "err \<noteq> ''''"
    using assms(6) by (rule ExecuteTool_error_text)
  moreover have "map_of (tools m) (aiTool a) = None \<longrightarrow> err = ''unknown tool: '' @ aiTool a"
    using assms(6) by (auto simp: ExecuteTool_def unknownTool_def)
  ultimately show ?thesis by blast
qed

theorem tool_error_completes_query_witness:
  "fst (QueryWithMCP sampleLib
         (sampleAI (Some sampleService) (Inr [[TextPart sampleUnknownToolCall]]) (Inl ''unused''))
         ''Restart the web pod'')
     = Inr \<lparr>Response = ''Error executing tool restart_pod: unknown tool: restart_pod'',
            UsedTool = True, ToolUsed = ''restart_pod'', RawData = '''',
            Error = ''unknown tool: restart_pod''\<rparr>"
proof -
  let ?s = "sampleAI (Some sampleService) (Inr [[TextPart sampleUnknownToolCall]]) (Inl ''unused'')"
  let ?a = "\<lparr>aiAction = ''use_tool'', aiTool = ''restart_pod'',
             aiArguments = Map.empty, aiResponse = ''''\<rparr>"
  have 1: "mcpService ?s = Some (NewMCPService (Some sampleService))"
    by (simp add: sampleAI_def)
  have 2: "client ?s 0 (decisionPrompt ''Restart the web pod''
             (jsonMarshalTools sampleLib (ListTools (NewMCPService (Some sampleService)))))
           = Inr ([TextPart sampleUnknownToolCall] # [])"
    by (simp add: sampleAI_def)
  have 3: "[TextPart sampleUnknownToolCall] \<noteq> []" by simp
  have 5: "aiAction ?a = ''use_tool''" by simp
  have 6: "snd (ExecuteTool sampleLib (NewMCPService (Some sampleService))
             \<lparr>Name = aiTool ?a, Arguments = aiArguments ?a\<rparr>) = Some ''unknown tool: restart_pod''"
    by (simp add: ExecuteTool_def NewMCPService_def registerTools_def unknownTool_def)
  from tool_error_completes_query [OF 1 2 3 sample_parse_unknown_tool 5 6]
  show ?thesis by simp
qed

text \<open>
  C7, as stated, fails where the cluster is not connected: the outcome of the pod health
  tool has \<open>IsError\<close> set, and the only prompt the orchestrator sends is the one of the
  first call; no analysis prompt, with or without the content of the outcome, follows.
\<close>

theorem error_outcome_reaches_model_counterexample:
  "IsError (fst (ExecuteTool sampleLib (NewMCPService None)
      \<lparr>Name = ''get_pod_health'', Arguments = [''namespace'' \<mapsto> VString ''prod'']\<rparr>))
   \<and> snd (QueryWithMCP sampleLib
           (sampleAI None (Inr [[TextPart samplePodHealthCall]])
              (Inr [[TextPart ''All pods are healthy.'']]))
           ''How are my pods?'')
     = [decisionPrompt ''How are my pods?''
          (jsonMarshalTools sampleLib (ListTools (NewMCPService None)))]"
proof -
  let ?s = "sampleAI None (Inr [[TextPart samplePodHealthCall]])
              (Inr [[TextPart ''All pods are healthy.'']])"
  have e: "ExecuteTool sampleLib (NewMCPService None)
      \<lparr>Name = ''get_pod_health'', Arguments = [''namespace'' \<mapsto> VString ''prod'']\<rparr>
      = serviceUnavailable"
    by (simp add: ExecuteTool_def NewMCPService_def registerTools_def getPodHealth_def)
  have 1: "mcpService ?s = Some (NewMCPService None)"
    by (simp add: sampleAI_def)
  have 2: "client ?s 0 (decisionPrompt ''How are my pods?''
             (jsonMarshalTools sampleLib (ListTools (NewMCPService None))))
           = Inr ([TextPart samplePodHealthCall] # [])"
    by (simp add: sampleAI_def)
  have "snd (QueryWithMCP sampleLib ?s ''How are my pods?'')
     = [decisionPrompt ''How are my pods?''
          (jsonMarshalTools sampleLib (ListTools (NewMCPService None)))]"
    by (simp add: QueryWithMCP_decided [OF 1 2] sample_parse_pod_health useTool_def e
        serviceUnavailable_def)
  with e show ?thesis by (simp add: serviceUnavailable_def textResult_def)
qed

text \<open>
  C7, amended. An outcome with \<open>IsError\<close> set always comes with an error value, and the
  orchestrator then ends the query at once: it sends no second prompt to the model, and
  returns a response (not a request-level error) that carries the error.
\<close>

theorem error_outcome_ends_query:
  assumes "mcpService s = Some m"
    and "client s 0 (decisionPrompt query (jsonMarshalTools lib (ListTools m))) = Inr (c # cs)"
    and "c \<noteq> []"
    and "parseAction lib (extractText c) = Some a"
    and "aiAction a = ''use_tool''"
    and "IsError (fst (ExecuteTool lib m \<lparr>Name = aiTool a, Arguments = aiArguments a\<rparr>))"
  shows "\<exists>err. snd (ExecuteTool lib m \<lparr>Name = aiTool a, Arguments = aiArguments a\<rparr>) = Some err
           \<and> QueryWithMCP lib s query
             = (Inr \<lparr>Response = ''Error executing tool '' @ aiTool a @ '': '' @ err,
                     UsedTool = True, ToolUsed = aiTool a, RawData = '''', Error = err\<rparr>,
                [decisionPrompt query (jsonMarshalTools lib (ListTools m))])"
proof -
  from assms(6) obtain err
    where e: "snd (ExecuteTool lib m \<lparr>Name = aiTool a, Arguments = aiArguments a\<rparr>) = Some err"
    using ExecuteTool_error_iff by blast
  then show ?thesis
    using assms by (simp add: QueryWithMCP_decided useTool_error)
qed

theorem error_outcome_ends_query_witness:
  "IsError (fst (ExecuteTool sampleLib (NewMCPService (Some sampleService))
      \<lparr>Name = ''restart_pod'', Arguments = Map.empty\<rparr>))
   \<and> QueryWithMCP sampleLib
       (sampleAI (Some sampleService) (Inr [[TextPart sampleUnknownToolCall]])
          (Inr [[TextPart ''Done.'']]))
       ''Restart the web pod''
     = (Inr \<lparr>Response = ''Error executing tool restart_pod: unknown tool: restart_pod'',
             UsedTool = True, ToolUsed = ''restart_pod'', RawData = '''',
             Error = ''unknown tool: restart_pod''\<rparr>,
        [decisionPrompt ''Restart the web pod''
           (jsonMarshalTools sampleLib (ListTools (NewMCPService (Some sampleService))))])"
proof -
  let ?s = "sampleAI (Some sampleService) (Inr [[TextPart sampleUnknownToolCall]])
              (Inr [[TextPart ''Done.'']])"
  let ?a = "\<lparr>aiAction = ''use_tool'', aiTool = ''restart_pod'',
             aiArguments = Map.empty, aiResponse = ''''\<rparr>"
  have x: "ExecuteTool sampleLib (NewMCPService (Some sampleService))
             \<lparr>Name = ''restart_pod'', Arguments = Map.empty\<rparr> = unknownTool ''restart_pod''"
    by (simp add: ExecuteTool_def NewMCPService_def registerTools_def)
  have 1: "mcpService ?s = Some (NewMCPService (Some sampleService))"
    by (simp add: sampleAI_def)
  have 2: "client ?s 0 (decisionPrompt ''Restart the web pod''
             (jsonMarshalTools sampleLib (ListTools (NewMCPService (Some sampleService)))))
           = Inr ([TextPart sampleUnknownToolCall] # [])"
    by (simp add: sampleAI_def)
  have 3: "[TextPart sampleUnknownToolCall] \<noteq> []" by simp
  have 5: "aiAction ?a = ''use_tool''" by simp
  have 6: "IsError (fst (ExecuteTool sampleLib (NewMCPService (Some sampleService))
             \<lparr>Name = aiTool ?a, Arguments = aiArguments ?a\<rparr>))"
    by (simp add: x unknownTool_def textResult_def)
  from error_outcome_ends_query [OF 1 2 3 sample_parse_unknown_tool 5 6] 6
  show ?thesis by (simp add: x unknownTool_def)
qed


lemma useTool_analysis_result:
  assumes "ExecuteTool lib m \<lparr>Name = aiTool a, Arguments = aiArguments a\<rparr> = (toolResult, None)"
    and "client s 1 (analysisPrompt query (toolOutputOf toolResult)) = Inr candidates"
  shows "useTool lib s m query a prompt =
          (Inr \<lparr>Response = analysisTextOf candidates, UsedTool = True, ToolUsed = aiTool a,
                RawData = toolOutputOf toolResult, Error = ''''\<rparr>,
           [prompt, analysisPrompt query (toolOutputOf toolResult)])"
  using assms by (simp add: useTool_def Let_def)

text \<open>
  C6, as stated, fails where the analysis call returns an error: the response is the
  gathered text behind a fixed prefix, not the gathered text itself.
\<close>

theorem analysis_error_response_counterexample:
  "toolOutputOf (fst (ExecuteTool sampleLib (NewMCPService (Some sampleService))
      \<lparr>Name = ''get_pod_health'', Arguments = [''namespace'' \<mapsto> VString ''prod'']\<rparr>))
     = samplePodHealthOutput
   \<and> fst (QueryWithMCP sampleLib
           (sampleAI (Some sampleService) (Inr [[TextPart samplePodHealthCall]])
              (Inl ''quota exceeded''))
           ''How are my pods?'')
     = Inr \<lparr>Response = ''Gathered data but failed to analyze: '' @ samplePodHealthOutput,
            UsedTool = True, ToolUsed = ''get_pod_health'', RawData = '''', Error = ''''\<rparr>
   \<and> ''Gathered data but failed to analyze: '' @ samplePodHealthOutput \<noteq> samplePodHealthOutput"
proof -
  let ?s = "sampleAI (Some sampleService) (Inr [[TextPart samplePodHealthCall]])
              (Inl ''quota exceeded'')"
  let ?p = "decisionPrompt ''How are my pods?''
              (jsonMarshalTools sampleLib (ListTools (NewMCPService (Some sampleService))))"
  let ?a = "\<lparr>aiAction = ''use_tool'', aiTool = ''get_pod_health'',
             aiArguments = [''namespace'' \<mapsto> VString ''prod''], aiResponse = ''''\<rparr>"
  have 1: "mcpService ?s = Some (NewMCPService (Some sampleService))"
    by (simp add: sampleAI_def)
  have 2: "client ?s 0 ?p = Inr ([TextPart samplePodHealthCall] # [])"
    by (simp add: sampleAI_def)
  have q: "QueryWithMCP sampleLib ?s ''How are my pods?''
           = useTool sampleLib ?s (NewMCPService (Some sampleService)) ''How are my pods?'' ?a ?p"
    by (simp add: QueryWithMCP_decided [OF 1 2] sample_parse_pod_health)
  have x: "ExecuteTool sampleLib (NewMCPService (Some sampleService))
             \<lparr>Name = aiTool ?a, Arguments = aiArguments ?a\<rparr> = (samplePodHealthResult, None)"
    using sample_pod_health_result by simp
  have c: "client ?s 1 (analysisPrompt ''How are my pods?'' (toolOutputOf samplePodHealthResult))
           = Inl ''quota exceeded''"
    by (simp add: sampleAI_def)
  have "fst (QueryWithMCP sampleLib ?s ''How are my pods?'')
     = Inr \<lparr>Response = ''Gathered data but failed to analyze: '' @ samplePodHealthOutput,
            UsedTool = True, ToolUsed = ''get_pod_health'', RawData = '''', Error = ''''\<rparr>"
    unfolding q useTool_analysis_error [OF x c] by (simp add: sample_pod_health_output)
  then show ?thesis
    by (simp add: sample_pod_health_result sample_pod_health_output)
qed

text \<open>
  C6, amended. When the tool has run without error and the analysis call returns an
  error, the request does not fail: the response is \<open>Gathered data but failed to analyze: \<close>
  followed by the concatenated tool output, with \<open>UsedTool\<close> set, \<open>ToolUsed\<close> the tool
  name, and \<open>RawData\<close> and \<open>Error\<close> left empty.
\<close>

theorem analysis_error_returns_gathered_text:
  assumes "mcpService s = Some m"
    and "client s 0 (decisionPrompt query (jsonMarshalTools lib (ListTools m))) = Inr (c # cs)"
    and "c \<noteq> []"
    and "parseAction lib (extractText c) = Some a"
    and "aiAction a = ''use_tool''"
    and "ExecuteTool lib m \<lparr>Name = aiTool a, Arguments = aiArguments a\<rparr> = (toolResult, None)"
    and "client s 1 (analysisPrompt query (toolOutputOf toolResult)) = Inl e"
  shows "QueryWithMCP lib s query
         = (Inr \<lparr>Response = ''Gathered data but failed to analyze: '' @ toolOutputOf toolResult,
                 UsedTool = True, ToolUsed = aiTool a, RawData = '''', Error = ''''\<rparr>,
            [decisionPrompt query (jsonMarshalTools lib (ListTools m)),
             analysisPrompt query (toolOutputOf toolResult)])"
  using assms by (simp add: QueryWithMCP_decided useTool_analysis_error)

theorem analysis_error_returns_gathered_text_witness:
  "QueryWithMCP sampleLib
     (sampleAI (Some sampleService) (Inr [[TextPart samplePodHealthCall]]) (Inl ''timeout''))
     ''Which pods run in prod?''
   = (Inr \<lparr>Response = ''Gathered data but failed to analyze: '' @ samplePodHealthOutput,
           UsedTool = True, ToolUsed = ''get_pod_health'', RawData = '''', Error = ''''\<rparr>,
      [decisionPrompt ''Which pods run in prod?''
         (jsonMarshalTools sampleLib (ListTools (NewMCPService (Some sampleService)))),
       analysisPrompt ''Which pods run in prod?'' samplePodHealthOutput])"
proof -
  let ?s = "sampleAI (Some sampleService) (Inr [[TextPart samplePodHealthCall]]) (Inl ''timeout'')"
  let ?a = "\<lparr>aiAction = ''use_tool'', aiTool = ''get_pod_health'',
             aiArguments = [''namespace'' \<mapsto> VString ''prod''], aiResponse = ''''\<rparr>"
  have 1: "mcpService ?s = Some (NewMCPService (Some sampleService))"
    by (simp add: sampleAI_def)
  have 2: "client ?s 0 (decisionPrompt ''Which pods run in prod?''
             (jsonMarshalTools sampleLib (ListTools (NewMCPService (Some sampleService)))))
           = Inr ([TextPart samplePodHealthCall] # [])"
    by (simp add: sampleAI_def)
  have 3: "[TextPart samplePodHealthCall] \<noteq> []" by simp
  have 5: "aiAction ?a = ''use_tool''" by simp
  have 6: "ExecuteTool sampleLib (NewMCPService (Some sampleService))
             \<lparr>Name = aiTool ?a, Arguments = aiArguments ?a\<rparr> = (samplePodHealthResult, None)"
    using sample_pod_health_result by simp
  have 7: "client ?s 1 (analysisPrompt ''Which pods run in prod?''
             (toolOutputOf samplePodHealthResult)) = Inl ''timeout''"
    by (simp add: sampleAI_def)
  from analysis_error_returns_gathered_text [OF 1 2 3 sample_parse_pod_health 5 6 7]
  show ?thesis by (simp add: sample_pod_health_output)
qed

text \<open>
  After a first model call with content, the orchestrator always returns a response
  and never a request-level error; what it cannot promise is that the text is not empty.
\<close>

lemma useTool_responds: "\<exists>r prompts. useTool lib s m query a prompt = (Inr r, prompts)"
  by (simp add: useTool_def Let_def split: prod.splits option.splits sum.splits)

lemma QueryWithMCP_responds:
  assumes "mcpService s = Some m"
    and "client s 0 (decisionPrompt query (jsonMarshalTools lib (ListTools m))) = Inr (c # cs)"
    and "c \<noteq> []"
  shows "\<exists>r. fst (QueryWithMCP lib s query) = Inr r"
proof (cases "parseAction lib (extractText c)")
  case None
  then show ?thesis by (simp add: QueryWithMCP_decided [OF assms])
next
  case (Some a)
  obtain r prompts
    where "useTool lib s m query a (decisionPrompt query (jsonMarshalTools lib (ListTools m)))
           = (Inr r, prompts)"
    using useTool_responds by blast
  with Some show ?thesis by (simp add: QueryWithMCP_decided [OF assms])
qed

lemma QueryWithMCP_parse_failure_verbatim:
  assumes "mcpService s = Some m"
    and "client s 0 (decisionPrompt query (jsonMarshalTools lib (ListTools m))) = Inr (c # cs)"
    and "c \<noteq> []"
    and "parseAction lib (extractText c) = None"
  shows "fst (QueryWithMCP lib s query) = Inr (directResponse (extractText c))"
  using assms by (simp add: QueryWithMCP_decided)

text \<open>
  C4, at two inputs. The model answers with JSON that is neither decision shape: the
  response is empty. The model asks for the pod health tool, the tool runs, and the
  analysis call returns no candidate: the response is empty again, the gathered text
  being in \<open>RawData\<close> only.
\<close>

theorem empty_response_after_first_call:
  \<open>fst (QueryWithMCP sampleLib
          (sampleAI (Some sampleService) (Inr [[TextPart ''{"status":"ok"}'']]) (Inl ''unused''))
          ''Is the cluster healthy?'')
     = Inr \<lparr>Response = '''', UsedTool = False, ToolUsed = '''', RawData = '''', Error = ''''\<rparr>
   \<and> fst (QueryWithMCP sampleLib
           (sampleAI (Some sampleService) (Inr [[TextPart samplePodHealthCall]]) (Inr []))
           ''How are my pods?'')
     = Inr \<lparr>Response = '''', UsedTool = True, ToolUsed = ''get_pod_health'',
            RawData = samplePodHealthOutput, Error = ''''\<rparr>\<close>
proof -
  let ?s1 = \<open>sampleAI (Some sampleService) (Inr [[TextPart ''{"status":"ok"}'']]) (Inl ''unused'')\<close>
  let ?s2 = "sampleAI (Some sampleService) (Inr [[TextPart samplePodHealthCall]]) (Inr [])"
  let ?p = "decisionPrompt ''How are my pods?''
              (jsonMarshalTools sampleLib (ListTools (NewMCPService (Some sampleService))))"
  let ?a = "\<lparr>aiAction = ''use_tool'', aiTool = ''get_pod_health'',
             aiArguments = [''namespace'' \<mapsto> VString ''prod''], aiResponse = ''''\<rparr>"
  have p: \<open>parseAction sampleLib (extractText [TextPart ''{"status":"ok"}'']) = Some zeroAction\<close>
    by (simp add: parseAction_def extractText_def jsonTextOf_def Contains_def Index_def
        sampleLib_def sampleUnmarshal_def sampleAnswer_def)
  have 1: "mcpService ?s1 = Some (NewMCPService (Some sampleService))"
    by (simp add: sampleAI_def)
  have 2: \<open>client ?s1 0 (decisionPrompt ''Is the cluster healthy?''
             (jsonMarshalTools sampleLib (ListTools (NewMCPService (Some sampleService)))))
           = Inr ([TextPart ''{"status":"ok"}''] # [])\<close>
    by (simp add: sampleAI_def)
  have a: "fst (QueryWithMCP sampleLib ?s1 ''Is the cluster healthy?'')
     = Inr \<lparr>Response = '''', UsedTool = False, ToolUsed = '''', RawData = '''', Error = ''''\<rparr>"
    by (simp add: QueryWithMCP_decided [OF 1 2] p zeroAction_def directResponse_def)
  have 3: "mcpService ?s2 = Some (NewMCPService (Some sampleService))"
    by (simp add: sampleAI_def)
  have 4: "client ?s2 0 ?p = Inr ([TextPart samplePodHealthCall] # [])"
    by (simp add: sampleAI_def)
  have q: "QueryWithMCP sampleLib ?s2 ''How are my pods?''
           = useTool sampleLib ?s2 (NewMCPService (Some sampleService)) ''How are my pods?'' ?a ?p"
    by (simp add: QueryWithMCP_decided [OF 3 4] sample_parse_pod_health)
  have x: "ExecuteTool sampleLib (NewMCPService (Some sampleService))
             \<lparr>Name = aiTool ?a, Arguments = aiArguments ?a\<rparr> = (samplePodHealthResult, None)"
    using sample_pod_health_result by simp
  have c: "client ?s2 1 (analysisPrompt ''How are my pods?'' (toolOutputOf samplePodHealthResult))
           = Inr []"
    by (simp add: sampleAI_def)
  have b: "fst (QueryWithMCP sampleLib ?s2 ''How are my pods?'')
     = Inr \<lparr>Response = '''', UsedTool = True, ToolUsed = ''get_pod_health'',
            RawData = samplePodHealthOutput, Error = ''''\<rparr>"
    unfolding q useTool_analysis_result [OF x c]
    by (simp add: sample_pod_health_output analysisTextOf_def)
  from a b show ?thesis by blast
qed


section \<open>Properties of the response parser\<close>

lemma indexOf_None_lastIndexOf: "indexOf s substr = None \<Longrightarrow> lastIndexOf s substr = None"
  by (induction s) (auto split: if_splits)

lemma indexOf_in_range:
  "indexOf s substr = Some i \<Longrightarrow> i + length substr \<le> length s"
proof (induction s arbitrary: i)
  case Nil
  then show ?case by (simp split: if_splits)
next
  case (Cons c s)
  then show ?case
    by (auto split: if_splits dest: prefix_length_le)
qed

text \<open>The guards of the third stage, taken together.\<close>

lemma brace_guards:
  "(Contains t ''{'' \<and> Contains t ''}'' \<and> Index t ''{'' \<noteq> - 1 \<and> LastIndex t ''}'' \<noteq> - 1
      \<and> LastIndex t ''}'' > Index t ''{'')
   \<longleftrightarrow> (0 \<le> Index t ''{'' \<and> Index t ''{'' < LastIndex t ''}'')"
proof -
  have "indexOf t ''}'' = None \<Longrightarrow> LastIndex t ''}'' = - 1"
    by (simp add: LastIndex_def indexOf_None_lastIndexOf)
  then show ?thesis
    by (auto simp: Contains_def Index_def split: option.splits)
qed

lemma jsonTextOf_fenceBody:
  "jsonTextOf t = (case fenceBody t of Some b \<Rightarrow> TrimSpace b | None \<Rightarrow> t)"
  by (simp add: jsonTextOf_def fenceBody_def Let_def)

text \<open>
  C3, as stated, fails on a well-formed answer whose text quotes a fenced block. The
  entire text parses as the decision object, so stage 1 of the specified chain succeeds
  and gives the answer of the model; the code parses the body of the fence instead and
  ends with an empty decision and an empty response.
\<close>

theorem parser_order_counterexample:
  "decode sampleLib sampleAnswer
     = Some \<lparr>aiAction = ''answer'', aiTool = '''', aiArguments = Map.empty,
             aiResponse = ''Wrap the manifest in ```json {} ``` when posting''\<rparr>
   \<and> spec_parseAction sampleLib sampleAnswer = decode sampleLib sampleAnswer
   \<and> parseAction sampleLib sampleAnswer
     = Some \<lparr>aiAction = '''', aiTool = '''', aiArguments = Map.empty, aiResponse = ''''\<rparr>
   \<and> fst (QueryWithMCP sampleLib
           (sampleAI (Some sampleService) (Inr [[TextPart sampleAnswer]]) (Inl ''unused''))
           ''How do I post a manifest?'')
     = Inr \<lparr>Response = '''', UsedTool = False, ToolUsed = '''', RawData = '''', Error = ''''\<rparr>"
proof -
  let ?s = "sampleAI (Some sampleService) (Inr [[TextPart sampleAnswer]]) (Inl ''unused'')"
  have d: "decode sampleLib sampleAnswer
     = Some \<lparr>aiAction = ''answer'', aiTool = '''', aiArguments = Map.empty,
             aiResponse = ''Wrap the manifest in ```json {} ``` when posting''\<rparr>"
    by (simp add: decode_def sampleLib_def sampleUnmarshal_def zeroAction_def)
  have s: "spec_parseAction sampleLib sampleAnswer = decode sampleLib sampleAnswer"
    by (simp add: spec_parseAction_def d)
  have j: "jsonTextOf sampleAnswer = ''{}''"
    by (simp add: jsonTextOf_def sampleAnswer_def Contains_def Index_def sliceOf_def
        TrimSpace_def spaceWidth_def spaceRunes_def)
  have u: "jsonUnmarshal sampleLib (jsonTextOf sampleAnswer) zeroAction = (None, zeroAction)"
    unfolding j by (simp add: sampleLib_def sampleUnmarshal_def sampleAnswer_def)
  have p: "parseAction sampleLib sampleAnswer
     = Some \<lparr>aiAction = '''', aiTool = '''', aiArguments = Map.empty, aiResponse = ''''\<rparr>"
    unfolding parseAction_def u by (simp add: zeroAction_def)
  have 1: "mcpService ?s = Some (NewMCPService (Some sampleService))"
    by (simp add: sampleAI_def)
  have 2: "client ?s 0 (decisionPrompt ''How do I post a manifest?''
             (jsonMarshalTools sampleLib (ListTools (NewMCPService (Some sampleService)))))
           = Inr ([TextPart sampleAnswer] # [])"
    by (simp add: sampleAI_def)
  have e: "extractText [TextPart sampleAnswer] = sampleAnswer"
    by (simp add: extractText_def)
  have "fst (QueryWithMCP sampleLib ?s ''How do I post a manifest?'')
     = Inr \<lparr>Response = '''', UsedTool = False, ToolUsed = '''', RawData = '''', Error = ''''\<rparr>"
    by (simp add: QueryWithMCP_decided [OF 1 2] e p directResponse_def)
  with d s p show ?thesis by blast
qed

text \<open>
  C3, amended. The text parsed first is the trimmed body of the first fence marked
  \<open>json\<close> when the text has one with a closing fence, and the entire text otherwise. If
  it parses, that is the decision and nothing else is tried. Only if it fails, and the
  first \<open>{\<close> lies before the last \<open>}\<close>, the substring from the one to the other is parsed
  (into the struct as the failed attempt left it), and its success is the decision. In
  every other case the orchestrator returns the original text verbatim as a direct
  answer, with \<open>UsedTool\<close> unset.
\<close>

theorem parser_fallback_chain:
  "jsonTextOf t = (case fenceBody t of Some b \<Rightarrow> TrimSpace b | None \<Rightarrow> t)
   \<and> (\<forall>a. jsonUnmarshal lib (jsonTextOf t) zeroAction = (None, a) \<longrightarrow>
          parseAction lib t = Some a)
   \<and> (\<forall>err a. jsonUnmarshal lib (jsonTextOf t) zeroAction = (Some err, a) \<longrightarrow>
          parseAction lib t =
            (if 0 \<le> Index t ''{'' \<and> Index t ''{'' < LastIndex t ''}'' then
               (case jsonUnmarshal lib (sliceOf t (Index t ''{'') (LastIndex t ''}'' + 1)) a of
                  (None, a') \<Rightarrow> Some a'
                | (Some err', a') \<Rightarrow> None)
             else None))
   \<and> (\<forall>(s::ai_Service) m query c cs.
          mcpService s = Some m
          \<and> client s 0 (decisionPrompt query (jsonMarshalTools lib (ListTools m))) = Inr (c # cs)
          \<and> c \<noteq> [] \<and> extractText c = t \<and> parseAction lib t = None \<longrightarrow>
          fst (QueryWithMCP lib s query)
            = Inr \<lparr>Response = t, UsedTool = False, ToolUsed = '''', RawData = '''',
                   Error = ''''\<rparr>)"
proof (intro conjI allI impI)
  show "jsonTextOf t = (case fenceBody t of Some b \<Rightarrow> TrimSpace b | None \<Rightarrow> t)"
    by (rule jsonTextOf_fenceBody)
next
  fix a
  assume "jsonUnmarshal lib (jsonTextOf t) zeroAction = (None, a)"
  then show "parseAction lib t = Some a"
    by (simp add: parseAction_def)
next
  fix err a
  assume u: "jsonUnmarshal lib (jsonTextOf t) zeroAction = (Some err, a)"
  show "parseAction lib t =
            (if 0 \<le> Index t ''{'' \<and> Index t ''{'' < LastIndex t ''}'' then
               (case jsonUnmarshal lib (sliceOf t (Index t ''{'') (LastIndex t ''}'' + 1)) a of
                  (None, a') \<Rightarrow> Some a'
                | (Some err', a') \<Rightarrow> None)
             else None)"
  proof (cases "0 \<le> Index t ''{'' \<and> Index t ''{'' < LastIndex t ''}''")
    case True
    with brace_guards [of t] have g: "Contains t ''{''" "Contains t ''}''"
      "Index t ''{'' \<noteq> - 1" "LastIndex t ''}'' \<noteq> - 1" "LastIndex t ''}'' > Index t ''{''"
      by blast+
    from True show ?thesis
      by (simp add: parseAction_def u g Let_def)
  next
    case False
    with brace_guards [of t]
    have "\<not> (Contains t ''{'' \<and> Contains t ''}'' \<and> Index t ''{'' \<noteq> - 1
              \<and> LastIndex t ''}'' \<noteq> - 1 \<and> LastIndex t ''}'' > Index t ''{'')"
      by blast
    with False show ?thesis
      by (auto simp: parseAction_def u Let_def)
  qed
next
  fix s :: ai_Service and m query c cs
  assume "mcpService s = Some m
          \<and> client s 0 (decisionPrompt query (jsonMarshalTools lib (ListTools m))) = Inr (c # cs)
          \<and> c \<noteq> [] \<and> extractText c = t \<and> parseAction lib t = None"
  then show "fst (QueryWithMCP lib s query)
            = Inr \<lparr>Response = t, UsedTool = False, ToolUsed = '''', RawData = '''',
                   Error = ''''\<rparr>"
    by (simp add: QueryWithMCP_decided directResponse_def)
qed

theorem parser_fallback_chain_witness:
  "parseAction sampleLib sampleFencedCall
     = Some \<lparr>aiAction = ''use_tool'', aiTool = ''get_pod_health'',
             aiArguments = [''namespace'' \<mapsto> VString ''prod''], aiResponse = ''''\<rparr>
   \<and> parseAction sampleLib sampleProseCall
     = Some \<lparr>aiAction = ''use_tool'', aiTool = ''restart_pod'',
             aiArguments = Map.empty, aiResponse = ''''\<rparr>
   \<and> fst (QueryWithMCP sampleLib
           (sampleAI None (Inr [[TextPart ''All pods look fine.'']]) (Inl ''unused''))
           ''How are my pods?'')
     = Inr \<lparr>Response = ''All pods look fine.'', UsedTool = False, ToolUsed = '''',
            RawData = '''', Error = ''''\<rparr>"
proof -
  let ?t1 = sampleFencedCall
  let ?t2 = sampleProseCall
  let ?t3 = "''All pods look fine.''"
  let ?s = "sampleAI None (Inr [[TextPart ?t3]]) (Inl ''unused'')"
  have j1: "jsonTextOf ?t1 = samplePodHealthCall"
    by (simp add: jsonTextOf_def sampleFencedCall_def samplePodHealthCall_def Contains_def
        Index_def sliceOf_def TrimSpace_def spaceWidth_def spaceRunes_def)
  have u1: "jsonUnmarshal sampleLib (jsonTextOf ?t1) zeroAction
     = (None, \<lparr>aiAction = ''use_tool'', aiTool = ''get_pod_health'',
             aiArguments = [''namespace'' \<mapsto> VString ''prod''], aiResponse = ''''\<rparr>)"
    unfolding j1
    by (simp add: sampleLib_def sampleUnmarshal_def samplePodHealthCall_def sampleAnswer_def
        zeroAction_def)
  from parser_fallback_chain [of ?t1 sampleLib] u1
  have r1: "parseAction sampleLib ?t1
     = Some \<lparr>aiAction = ''use_tool'', aiTool = ''get_pod_health'',
             aiArguments = [''namespace'' \<mapsto> VString ''prod''], aiResponse = ''''\<rparr>"
    by blast
  have j2: "jsonTextOf ?t2 = ?t2"
    by (simp add: jsonTextOf_def sampleProseCall_def sampleUnknownToolCall_def Contains_def
        Index_def)
  have u2: "jsonUnmarshal sampleLib (jsonTextOf ?t2) zeroAction
     = (Some ''invalid character'', zeroAction)"
    unfolding j2
    by (simp add: sampleLib_def sampleUnmarshal_def sampleProseCall_def samplePodHealthCall_def
        sampleUnknownToolCall_def sampleAnswer_def)
  have b2: "Index ?t2 ''{'' = 13" "LastIndex ?t2 ''}'' = 69"
    by (simp_all add: Index_def LastIndex_def sampleProseCall_def sampleUnknownToolCall_def)
  have s2: "sliceOf ?t2 13 70 = sampleUnknownToolCall"
    by (simp add: sliceOf_def sampleProseCall_def sampleUnknownToolCall_def)
  have u2': "jsonUnmarshal sampleLib sampleUnknownToolCall zeroAction
     = (None, \<lparr>aiAction = ''use_tool'', aiTool = ''restart_pod'',
             aiArguments = Map.empty, aiResponse = ''''\<rparr>)"
    by (simp add: sampleLib_def sampleUnmarshal_def samplePodHealthCall_def
        sampleUnknownToolCall_def sampleAnswer_def zeroAction_def)
  from parser_fallback_chain [of ?t2 sampleLib] u2
  have "parseAction sampleLib ?t2 =
            (if 0 \<le> Index ?t2 ''{'' \<and> Index ?t2 ''{'' < LastIndex ?t2 ''}'' then
               (case jsonUnmarshal sampleLib
                       (sliceOf ?t2 (Index ?t2 ''{'') (LastIndex ?t2 ''}'' + 1)) zeroAction of
                  (None, a') \<Rightarrow> Some a'
                | (Some err', a') \<Rightarrow> None)
             else None)"
    by blast
  then have r2: "parseAction sampleLib ?t2
     = Some \<lparr>aiAction = ''use_tool'', aiTool = ''restart_pod'',
             aiArguments = Map.empty, aiResponse = ''''\<rparr>"
    by (simp add: b2 s2 u2')
  have 1: "mcpService ?s = Some (NewMCPService None)"
    by (simp add: sampleAI_def)
  have 2: "client ?s 0 (decisionPrompt ''How are my pods?''
             (jsonMarshalTools sampleLib (ListTools (NewMCPService None))))
           = Inr ([TextPart ?t3] # [])"
    by (simp add: sampleAI_def)
  have 3: "[TextPart ?t3] \<noteq> []" by simp
  have 4: "extractText [TextPart ?t3] = ?t3" by (simp add: extractText_def)
  have 5: "parseAction sampleLib ?t3 = None"
    by (simp add: parseAction_def jsonTextOf_def Contains_def Index_def sampleLib_def
        sampleUnmarshal_def samplePodHealthCall_def sampleUnknownToolCall_def sampleAnswer_def)
  from parser_fallback_chain [of ?t3 sampleLib] 1 2 3 4 5
  have r3: "fst (QueryWithMCP sampleLib ?s ''How are my pods?'')
     = Inr \<lparr>Response = ?t3, UsedTool = False, ToolUsed = '''', RawData = '''', Error = ''''\<rparr>"
    by blast
  from r1 r2 r3 show ?thesis by blast
qed

end
